theory Spec2Isabelle
  imports Main "HOL-Library.Word" "HOL-Library.AList"
begin

unbundle bit_operations_syntax

section \<open>Values of the host language\<close>

text \<open>
  A buffer (\<open>ArrayBuffer\<close>, \<open>Uint8Array\<close>) is a list of bytes. A JavaScript number that
  holds an integer is an \<open>int\<close>; the 32-bit coercions of the bitwise operators are written
  out. A number read by \<open>getFloat32\<close>/\<open>getFloat64\<close> is carried by the bit pattern it was
  read from. Strings are ASCII: a \<open>TextDecoder\<close> applied to bytes above 127 and every
  coercion that the TypeScript casts hide (\<open>value as number\<close> on a string, ...) yield the
  outcome \<open>OutsideModel\<close>.
\<close>

type_synonym byte = "8 word"

datatype error =
    RangeError
  | TypeError
  | InvalidHeader int
  | UnsupportedRecordType int nat "byte list"
  | TooManyRecords
  | RootNotFound int
  | MetadataNotFound int
  | UnsupportedPrimitiveType int
  | VariableLengthIntTooLong
  | InvalidStringLength
  | MemberDoesNotExist string string
  | CannotResolveReference int
  | CannotEncodeBareNumber
  | CannotEncodeBareString

datatype 'a outcome = Return 'a | Throw error | OutOfFuel | OutsideModel

definition bind :: "('s \<Rightarrow> ('a \<times> 's) outcome) \<Rightarrow> ('a \<Rightarrow> 's \<Rightarrow> ('b \<times> 's) outcome)
    \<Rightarrow> 's \<Rightarrow> ('b \<times> 's) outcome" where
  "bind m f s = (case m s of
      Return (a, s') \<Rightarrow> f a s'
    | Throw e \<Rightarrow> Throw e
    | OutOfFuel \<Rightarrow> OutOfFuel
    | OutsideModel \<Rightarrow> OutsideModel)"

definition unit :: "'a \<Rightarrow> 's \<Rightarrow> ('a \<times> 's) outcome" where
  "unit a s = Return (a, s)"

definition throw :: "error \<Rightarrow> 's \<Rightarrow> ('a \<times> 's) outcome" where
  "throw e s = Throw e"

definition ToInt32 :: "int \<Rightarrow> int" where
  "ToInt32 x = signed_take_bit 31 x"

definition ToInt16 :: "int \<Rightarrow> int" where
  "ToInt16 x = signed_take_bit 15 x"

definition ToInt8 :: "int \<Rightarrow> int" where
  "ToInt8 x = signed_take_bit 7 x"

text \<open>The operators \<open>&\<close>, \<open>|\<close>, \<open><<\<close> and \<open>>>\<close> on numbers holding integers.\<close>

definition js_and :: "int \<Rightarrow> int \<Rightarrow> int" where
  "js_and x y = ToInt32 x AND ToInt32 y"

definition js_or :: "int \<Rightarrow> int \<Rightarrow> int" where
  "js_or x y = ToInt32 x OR ToInt32 y"

definition js_shl :: "int \<Rightarrow> int \<Rightarrow> int" where
  "js_shl x n = ToInt32 (push_bit (nat (n mod 32)) (ToInt32 x))"

definition js_sar :: "int \<Rightarrow> int \<Rightarrow> int" where
  "js_sar x n = drop_bit (nat (n mod 32)) (ToInt32 x)"

text \<open>\<open>Number(b)\<close> for a bigint \<open>b\<close>: the nearest double, ties to even.\<close>

fun bitlen :: "nat \<Rightarrow> nat" where
  "bitlen n = (if n = 0 then 0 else Suc (bitlen (n div 2)))"

definition Number_of_bigint :: "int \<Rightarrow> int" where
  "Number_of_bigint v =
     (let m = nat \<bar>v\<bar> in
      if m < 2 ^ 53 then v
      else
        let e = bitlen m - 53;
            q = m div 2 ^ e;
            r = m mod 2 ^ e;
            q' = (if 2 * r > 2 ^ e \<or> (2 * r = 2 ^ e \<and> odd q) then q + 1 else q)
        in sgn v * int (q' * 2 ^ e))"

datatype number = Integer int | Float32 "32 word" | Float64 "64 word"

datatype PrimitiveValue =
    PBoolean bool
  | PNumber number
  | PString string
  | PBigint int
  | PNull

section \<open>Enumerations\<close>

datatype RecordType =
    SerializedStreamHeader
  | ClassWithId
  | SystemClassWithMembers
  | ClassWithMembers
  | SystemClassWithMembersAndTypes
  | ClassWithMembersAndTypes
  | BinaryObjectString
  | BinaryArray
  | MemberPrimitiveTyped
  | MemberReference
  | ObjectNull
  | MessageEnd
  | BinaryLibrary
  | ObjectNullMultiple256
  | ObjectNullMultiple
  | ArraySinglePrimitive
  | ArraySingleObject
  | ArraySingleString

fun RecordType_value :: "RecordType \<Rightarrow> int" where
  "RecordType_value SerializedStreamHeader = 0"
| "RecordType_value ClassWithId = 1"
| "RecordType_value SystemClassWithMembers = 2"
| "RecordType_value ClassWithMembers = 3"
| "RecordType_value SystemClassWithMembersAndTypes = 4"
| "RecordType_value ClassWithMembersAndTypes = 5"
| "RecordType_value BinaryObjectString = 6"
| "RecordType_value BinaryArray = 7"
| "RecordType_value MemberPrimitiveTyped = 8"
| "RecordType_value MemberReference = 9"
| "RecordType_value ObjectNull = 10"
| "RecordType_value MessageEnd = 11"
| "RecordType_value BinaryLibrary = 12"
| "RecordType_value ObjectNullMultiple256 = 13"
| "RecordType_value ObjectNullMultiple = 14"
| "RecordType_value ArraySinglePrimitive = 15"
| "RecordType_value ArraySingleObject = 16"
| "RecordType_value ArraySingleString = 17"

text \<open>
  The decoder stores the bytes it reads as \<open>BinaryType\<close>, \<open>PrimitiveType\<close> and
  \<open>BinaryArrayType\<close> without checking them against the enumeration, so these are
  numbers with named values.
\<close>

type_synonym BinaryType = int
type_synonym PrimitiveType = int
type_synonym BinaryArrayType = int

definition BinaryType_Primitive :: BinaryType where "BinaryType_Primitive = 0"
definition BinaryType_String :: BinaryType where "BinaryType_String = 1"
definition BinaryType_Object :: BinaryType where "BinaryType_Object = 2"
definition BinaryType_SystemClass :: BinaryType where "BinaryType_SystemClass = 3"
definition BinaryType_Class :: BinaryType where "BinaryType_Class = 4"
definition BinaryType_ObjectArray :: BinaryType where "BinaryType_ObjectArray = 5"
definition BinaryType_StringArray :: BinaryType where "BinaryType_StringArray = 6"
definition BinaryType_PrimitiveArray :: BinaryType where "BinaryType_PrimitiveArray = 7"

definition PrimitiveType_Boolean :: PrimitiveType where "PrimitiveType_Boolean = 1"
definition PrimitiveType_Byte :: PrimitiveType where "PrimitiveType_Byte = 2"
definition PrimitiveType_Char :: PrimitiveType where "PrimitiveType_Char = 3"
definition PrimitiveType_Decimal :: PrimitiveType where "PrimitiveType_Decimal = 5"
definition PrimitiveType_Double :: PrimitiveType where "PrimitiveType_Double = 6"
definition PrimitiveType_Int16 :: PrimitiveType where "PrimitiveType_Int16 = 7"
definition PrimitiveType_Int32 :: PrimitiveType where "PrimitiveType_Int32 = 8"
definition PrimitiveType_Int64 :: PrimitiveType where "PrimitiveType_Int64 = 9"
definition PrimitiveType_SByte :: PrimitiveType where "PrimitiveType_SByte = 10"
definition PrimitiveType_Single :: PrimitiveType where "PrimitiveType_Single = 11"
definition PrimitiveType_TimeSpan :: PrimitiveType where "PrimitiveType_TimeSpan = 12"
definition PrimitiveType_DateTime :: PrimitiveType where "PrimitiveType_DateTime = 13"
definition PrimitiveType_UInt16 :: PrimitiveType where "PrimitiveType_UInt16 = 14"
definition PrimitiveType_UInt32 :: PrimitiveType where "PrimitiveType_UInt32 = 15"
definition PrimitiveType_UInt64 :: PrimitiveType where "PrimitiveType_UInt64 = 16"
definition PrimitiveType_Null :: PrimitiveType where "PrimitiveType_Null = 17"
definition PrimitiveType_String :: PrimitiveType where "PrimitiveType_String = 18"

definition BinaryArrayType_SingleOffset :: BinaryArrayType where "BinaryArrayType_SingleOffset = 3"
definition BinaryArrayType_JaggedOffset :: BinaryArrayType where "BinaryArrayType_JaggedOffset = 4"
definition BinaryArrayType_RectangularOffset :: BinaryArrayType where
  "BinaryArrayType_RectangularOffset = 5"

lemmas enum_defs =
  BinaryType_Primitive_def BinaryType_String_def BinaryType_Object_def
  BinaryType_SystemClass_def BinaryType_Class_def BinaryType_ObjectArray_def
  BinaryType_StringArray_def BinaryType_PrimitiveArray_def
  PrimitiveType_Boolean_def PrimitiveType_Byte_def PrimitiveType_Char_def
  PrimitiveType_Decimal_def PrimitiveType_Double_def PrimitiveType_Int16_def
  PrimitiveType_Int32_def PrimitiveType_Int64_def PrimitiveType_SByte_def
  PrimitiveType_Single_def PrimitiveType_TimeSpan_def PrimitiveType_DateTime_def
  PrimitiveType_UInt16_def PrimitiveType_UInt32_def PrimitiveType_UInt64_def
  PrimitiveType_Null_def PrimitiveType_String_def
  BinaryArrayType_SingleOffset_def BinaryArrayType_JaggedOffset_def
  BinaryArrayType_RectangularOffset_def

section \<open>Records\<close>

record ClassInfo =
  ci_objectId :: int
  ci_name :: string
  ci_memberCount :: int
  ci_memberNames :: "string list"

datatype AdditionalTypeInfo =
    AT_Primitive PrimitiveType
  | AT_SystemClass string
  | AT_Class string int
  | AT_None

record MemberTypeInfo =
  binaryTypeEnums :: "BinaryType list"
  additionalInfos :: "AdditionalTypeInfo list"

text \<open>
  \<open>ObjectValue = PrimitiveValue | NrbfRecord\<close>. The member values of a class record are
  a \<open>Map\<close> from names to values: an association list, updated in place for a key it
  holds and extended at the end otherwise.
\<close>

datatype ObjectValue = Prim PrimitiveValue | Rec NrbfRecord
and NrbfRecord =
    SerializationHeader int int int int
  | BinaryLibraryRecord int string
  | ClassRecord ClassInfo "MemberTypeInfo option" "int option" RecordType
      "(string \<times> ObjectValue) list"
  | BinaryArrayRecord int BinaryArrayType int "int list" "int list option" BinaryType
      AdditionalTypeInfo "ObjectValue list"
  | ArraySinglePrimitiveRecord int int PrimitiveType "PrimitiveValue list"
  | ArraySingleObjectRecord int int "ObjectValue list"
  | ArraySingleStringRecord int int "ObjectValue list"
  | BinaryObjectStringRecord int string
  | MemberPrimitiveTypedRecord PrimitiveType PrimitiveValue
  | MemberReferenceRecord int
  | ObjectNullRecord
  | ObjectNullMultipleRecord int
  | ObjectNullMultiple256Record int
  | MessageEndRecord

text \<open>The getter \<open>objectId\<close>: \<open>None\<close> is \<open>null\<close>.\<close>

fun objectId :: "NrbfRecord \<Rightarrow> int option" where
  "objectId (SerializationHeader _ _ _ _) = None"
| "objectId (BinaryLibraryRecord libraryId _) = Some libraryId"
| "objectId (ClassRecord classInfo _ _ _ _) = Some (ci_objectId classInfo)"
| "objectId (BinaryArrayRecord arrayObjectId _ _ _ _ _ _ _) = Some arrayObjectId"
| "objectId (ArraySinglePrimitiveRecord arrayObjectId _ _ _) = Some arrayObjectId"
| "objectId (ArraySingleObjectRecord arrayObjectId _ _) = Some arrayObjectId"
| "objectId (ArraySingleStringRecord arrayObjectId _ _) = Some arrayObjectId"
| "objectId (BinaryObjectStringRecord stringObjectId _) = Some stringObjectId"
| "objectId (MemberPrimitiveTypedRecord _ _) = None"
| "objectId (MemberReferenceRecord _) = None"
| "objectId ObjectNullRecord = None"
| "objectId (ObjectNullMultipleRecord _) = None"
| "objectId (ObjectNullMultiple256Record _) = None"
| "objectId MessageEndRecord = None"


subsection \<open>ClassRecord.getValue and ClassRecord.setValue\<close>

text \<open>
  Both are methods of \<open>ClassRecord\<close>; on any other record the model has nothing to
  call, which is \<open>OutsideModel\<close>. \<open>getValue\<close> returns \<open>None\<close> for \<open>undefined\<close>.
\<close>

fun getValue :: "NrbfRecord \<Rightarrow> string \<Rightarrow> ObjectValue option" where
  "getValue (ClassRecord classInfo mti lib rt mv) memberName = map_of mv memberName"
| "getValue _ memberName = None"

text \<open>
  \<open>setValue\<close> mutates the record: the model returns the outcome of the call together
  with the record as it is after the call.
\<close>

fun setValue :: "NrbfRecord \<Rightarrow> string \<Rightarrow> ObjectValue \<Rightarrow> unit outcome \<times> NrbfRecord" where
  "setValue (ClassRecord classInfo mti lib rt mv) memberName v =
     (if memberName \<notin> set (ci_memberNames classInfo)
      then (Throw (MemberDoesNotExist memberName (ci_name classInfo)),
            ClassRecord classInfo mti lib rt mv)
      else (Return (), ClassRecord classInfo mti lib rt (AList.update memberName v mv)))"
| "setValue r memberName v = (OutsideModel, r)"

section \<open>BinaryReader\<close>

record BinaryReader =
  view :: "byte list"
  offset :: nat

type_synonym 'a reader = "BinaryReader \<Rightarrow> ('a \<times> BinaryReader) outcome"

definition newBinaryReader :: "byte list \<Rightarrow> BinaryReader" where
  "newBinaryReader buffer = \<lparr>view = buffer, offset = 0\<rparr>"

text \<open>Little-endian value of a run of bytes; a \<open>DataView\<close> read past the end throws.\<close>

fun le_uint :: "byte list \<Rightarrow> int" where
  "le_uint [] = 0"
| "le_uint (b # bs) = uint b + 256 * le_uint bs"

definition getBytes :: "nat \<Rightarrow> (byte list) reader" where
  "getBytes n r =
     (if offset r + n \<le> length (view r)
      then Return (take n (drop (offset r) (view r)), r\<lparr>offset := offset r + n\<rparr>)
      else Throw RangeError)"

definition readByte :: "int reader" where
  "readByte st = (bind (getBytes 1) (\<lambda>bs. unit (le_uint bs))) st"

definition readSByte :: "int reader" where
  "readSByte st = (bind (getBytes 1) (\<lambda>bs. unit (ToInt8 (le_uint bs)))) st"

definition readInt16 :: "int reader" where
  "readInt16 st = (bind (getBytes 2) (\<lambda>bs. unit (ToInt16 (le_uint bs)))) st"

definition readUInt16 :: "int reader" where
  "readUInt16 st = (bind (getBytes 2) (\<lambda>bs. unit (le_uint bs))) st"

definition readInt32 :: "int reader" where
  "readInt32 st = (bind (getBytes 4) (\<lambda>bs. unit (ToInt32 (le_uint bs)))) st"

definition readUInt32 :: "int reader" where
  "readUInt32 st = (bind (getBytes 4) (\<lambda>bs. unit (le_uint bs))) st"

definition readInt64 :: "int reader" where
  "readInt64 st = (bind (getBytes 8) (\<lambda>bs. unit (signed_take_bit 63 (le_uint bs)))) st"

definition readUInt64 :: "int reader" where
  "readUInt64 st = (bind (getBytes 8) (\<lambda>bs. unit (le_uint bs))) st"

definition readSingle :: "number reader" where
  "readSingle st = (bind (getBytes 4) (\<lambda>bs. unit (Float32 (word_of_int (le_uint bs))))) st"

definition readDouble :: "number reader" where
  "readDouble st = (bind (getBytes 8) (\<lambda>bs. unit (Float64 (word_of_int (le_uint bs))))) st"

definition readBoolean :: "bool reader" where
  "readBoolean st = (bind readByte (\<lambda>b. unit (b \<noteq> 0))) st"

definition readChar :: "string reader" where
  "readChar st = (bind readByte (\<lambda>b. unit [char_of b])) st"

text \<open>\<open>b.toString(16).padStart(2, '0')\<close> for a byte.\<close>

definition hexDigit :: "int \<Rightarrow> char" where
  "hexDigit d = (if d < 10 then char_of (48 + d) else char_of (87 + d))"

definition toHex2 :: "int \<Rightarrow> string" where
  "toHex2 b = [hexDigit (b div 16), hexDigit (b mod 16)]"

definition readDecimal :: "string reader" where
  "readDecimal st = (bind (getBytes 16) (\<lambda>bs. unit (concat (map (\<lambda>b. toHex2 (uint b)) bs)))) st"

definition readDateTime :: "int reader" where
  "readDateTime st = readUInt64 st"

definition readTimeSpan :: "int reader" where
  "readTimeSpan st = readInt64 st"

function readVariableLengthInt_loop :: "int \<Rightarrow> int \<Rightarrow> int reader" where
  "readVariableLengthInt_loop v shift r =
     (if shift < 35 then
        bind readByte (\<lambda>b.
          let v' = js_or v (js_shl (js_and b 0x7F) shift) in
          if js_and b 0x80 = 0 then unit v'
          else readVariableLengthInt_loop v' (shift + 7)) r
      else Throw VariableLengthIntTooLong)"
  by pat_completeness auto
termination
  by (relation "measure (\<lambda>(v, shift, r). nat (35 - shift))") auto

declare readVariableLengthInt_loop.simps [simp del]

definition readVariableLengthInt :: "int reader" where
  "readVariableLengthInt st = readVariableLengthInt_loop 0 0 st"

text \<open>\<open>TextDecoder\<close> and \<open>TextEncoder\<close>, on ASCII.\<close>

definition utf8_decode :: "byte list \<Rightarrow> string option" where
  "utf8_decode bs =
     (if \<forall>b \<in> set bs. b < 128 then Some (map (\<lambda>b. char_of (uint b)) bs) else None)"

definition utf8_encode :: "string \<Rightarrow> byte list option" where
  "utf8_encode str =
     (if \<forall>c \<in> set str. (of_char c :: nat) < 128 then Some (map (\<lambda>c. of_char c) str)
      else None)"

definition readLengthPrefixedString :: "string reader" where
  "readLengthPrefixedString st =
     (bind readVariableLengthInt (\<lambda>len.
       if len = 0 then unit []
       else if len < 0 then throw InvalidStringLength
       else bind (getBytes (nat len)) (\<lambda>bytes r.
         case utf8_decode bytes of
           None \<Rightarrow> OutsideModel
         | Some str \<Rightarrow> Return (str, r)))) st"

definition getPosition :: "BinaryReader \<Rightarrow> nat" where
  "getPosition r = offset r"

section \<open>BinaryWriter\<close>

record BinaryWriter =
  chunks :: "byte list list"

type_synonym 'a writer = "BinaryWriter \<Rightarrow> ('a \<times> BinaryWriter) outcome"

definition newBinaryWriter :: BinaryWriter where
  "newBinaryWriter = \<lparr>chunks = []\<rparr>"

definition push :: "byte list \<Rightarrow> BinaryWriter \<Rightarrow> BinaryWriter" where
  "push chunk w = w\<lparr>chunks := chunks w @ [chunk]\<rparr>"

definition toBuffer :: "BinaryWriter \<Rightarrow> byte list" where
  "toBuffer w = concat (chunks w)"

text \<open>The \<open>n\<close> low bytes of a number holding an integer, as \<open>DataView.setIntN\<close> stores them.\<close>

fun le_bytes :: "nat \<Rightarrow> int \<Rightarrow> byte list" where
  "le_bytes 0 v = []"
| "le_bytes (Suc n) v = word_of_int v # le_bytes n (v div 256)"

definition pushByte :: "int \<Rightarrow> BinaryWriter \<Rightarrow> BinaryWriter" where
  "pushByte v w = push [word_of_int v] w"

definition writeByte :: "int \<Rightarrow> unit writer" where
  "writeByte v w = Return ((), pushByte v w)"

definition writeSByte :: "int \<Rightarrow> unit writer" where
  "writeSByte v w = Return ((), push [word_of_int v] w)"

definition writeInt16 :: "int \<Rightarrow> unit writer" where
  "writeInt16 v w = Return ((), push (le_bytes 2 v) w)"

definition writeUInt16 :: "int \<Rightarrow> unit writer" where
  "writeUInt16 v w = Return ((), push (le_bytes 2 v) w)"

definition writeInt32 :: "int \<Rightarrow> unit writer" where
  "writeInt32 v w = Return ((), push (le_bytes 4 v) w)"

definition writeUInt32 :: "int \<Rightarrow> unit writer" where
  "writeUInt32 v w = Return ((), push (le_bytes 4 v) w)"

definition writeInt64 :: "int \<Rightarrow> unit writer" where
  "writeInt64 v w = Return ((), push (le_bytes 8 v) w)"

definition writeUInt64 :: "int \<Rightarrow> unit writer" where
  "writeUInt64 v w = Return ((), push (le_bytes 8 v) w)"

text \<open>
  A number read by \<open>getFloat32\<close> or \<open>getFloat64\<close> and stored again by \<open>setFloat32\<close> or
  \<open>setFloat64\<close> gets the bytes it was read from, unless it is \<open>NaN\<close>: the host language has
  one \<open>NaN\<close>, and which of the \<open>NaN\<close> bit patterns is stored for it is the implementation's
  choice (a signalling \<open>NaN\<close> usually comes back quieted). Storing a \<open>NaN\<close> is
  \<open>OutsideModel\<close>.
\<close>

definition isNaN32 :: "32 word \<Rightarrow> bool" where
  "isNaN32 bits \<longleftrightarrow> bits AND 0x7F800000 = 0x7F800000 \<and> bits AND 0x007FFFFF \<noteq> 0"

definition isNaN64 :: "64 word \<Rightarrow> bool" where
  "isNaN64 bits \<longleftrightarrow>
     bits AND 0x7FF0000000000000 = 0x7FF0000000000000 \<and> bits AND 0x000FFFFFFFFFFFFF \<noteq> 0"

definition writeSingle :: "number \<Rightarrow> unit writer" where
  "writeSingle v w = (case v of
       Float32 bits \<Rightarrow>
         if isNaN32 bits then OutsideModel else Return ((), push (le_bytes 4 (uint bits)) w)
     | _ \<Rightarrow> OutsideModel)"

definition writeDouble :: "number \<Rightarrow> unit writer" where
  "writeDouble v w = (case v of
       Float64 bits \<Rightarrow>
         if isNaN64 bits then OutsideModel else Return ((), push (le_bytes 8 (uint bits)) w)
     | _ \<Rightarrow> OutsideModel)"

definition writeBoolean :: "bool \<Rightarrow> unit writer" where
  "writeBoolean v w = writeByte (if v then 1 else 0) w"

text \<open>\<open>value.charCodeAt(0)\<close> is \<open>NaN\<close> on the empty string, stored as byte 0.\<close>

definition writeChar :: "string \<Rightarrow> unit writer" where
  "writeChar v w = writeByte (case v of [] \<Rightarrow> 0 | c # _ \<Rightarrow> of_char c) w"

function writeVariableLengthInt_loop :: "int \<Rightarrow> BinaryWriter \<Rightarrow> BinaryWriter" where
  "writeVariableLengthInt_loop v w =
     (let b = js_and v 0x7F;
          v' = js_sar v 7
      in if v' > 0 then writeVariableLengthInt_loop v' (pushByte (js_or b 0x80) w)
         else pushByte b w)"
  by pat_completeness auto
termination
proof (relation "measure (\<lambda>(v, w). nat (ToInt32 v))", goal_cases)
  case 1
  show ?case by simp
next
  case (2 v w b v')
  have r: "- (2 ^ 31) \<le> ToInt32 v" "ToInt32 v < 2 ^ 31"
    unfolding ToInt32_def
    using signed_take_bit_int_less_exp [of 31 v]
      signed_take_bit_int_greater_eq_minus_exp [of 31 v] by simp_all
  from 2 have v': "v' = ToInt32 v div 128" and pos: "0 < v'"
    by (simp_all add: js_sar_def drop_bit_eq_div)
  from v' pos r have less: "v' < ToInt32 v" "0 < ToInt32 v" by linarith+
  have "- (2 ^ 31) \<le> v'" "v' < 2 ^ 31" using v' pos r less by linarith+
  then have "ToInt32 v' = v'"
    unfolding ToInt32_def by (simp add: signed_take_bit_int_eq_self)
  with less show ?case by simp
qed

declare writeVariableLengthInt_loop.simps [simp del]

definition writeVariableLengthInt :: "int \<Rightarrow> unit writer" where
  "writeVariableLengthInt v w = Return ((), writeVariableLengthInt_loop v w)"

definition writeLengthPrefixedString :: "string \<Rightarrow> unit writer" where
  "writeLengthPrefixedString str w =
     (case utf8_encode str of
        None \<Rightarrow> OutsideModel
      | Some bytes \<Rightarrow>
          bind (writeVariableLengthInt (int (length bytes))) (\<lambda>_ w'. Return ((), push bytes w')) w)"

text \<open>
  \<open>parseInt(s, 16)\<close>: leading white space, an optional sign, an optional \<open>0x\<close>, then
  the longest run of hexadecimal digits; \<open>None\<close> is \<open>NaN\<close>.
\<close>

definition hexValue :: "char \<Rightarrow> int option" where
  "hexValue c =
     (let n = (of_char c :: int) in
      if 48 \<le> n \<and> n \<le> 57 then Some (n - 48)
      else if 97 \<le> n \<and> n \<le> 102 then Some (n - 87)
      else if 65 \<le> n \<and> n \<le> 70 then Some (n - 55)
      else None)"

fun hexRun :: "int \<Rightarrow> string \<Rightarrow> int" where
  "hexRun acc [] = acc"
| "hexRun acc (c # cs) = (case hexValue c of None \<Rightarrow> acc | Some d \<Rightarrow> hexRun (16 * acc + d) cs)"

definition isWhiteSpace :: "char \<Rightarrow> bool" where
  "isWhiteSpace c = ((of_char c :: int) \<in> {9, 10, 11, 12, 13, 32, 160})"

definition parseInt16 :: "string \<Rightarrow> int option" where
  "parseInt16 s =
     (let s1 = dropWhile isWhiteSpace s;
          neg = (case s1 of c # _ \<Rightarrow> c = CHR ''-'' | [] \<Rightarrow> False);
          s2 = (case s1 of c # cs \<Rightarrow> if c = CHR ''-'' \<or> c = CHR ''+'' then cs else s1 | [] \<Rightarrow> s1);
          s3 = (case s2 of c # d # cs \<Rightarrow>
                  if c = CHR ''0'' \<and> (d = CHR ''x'' \<or> d = CHR ''X'') then cs else s2
                | _ \<Rightarrow> s2)
      in case s3 of
           [] \<Rightarrow> None
         | c # _ \<Rightarrow> (case hexValue c of
                       None \<Rightarrow> None
                     | Some _ \<Rightarrow> Some ((if neg then - 1 else 1) * hexRun 0 s3)))"

text \<open>\<open>hexString.slice(i, i + 2)\<close>, and a byte store of a number that may be \<open>NaN\<close>.\<close>

definition slice2 :: "string \<Rightarrow> nat \<Rightarrow> string" where
  "slice2 s i = take 2 (drop i s)"

definition byteOfParse :: "int option \<Rightarrow> int" where
  "byteOfParse p = (case p of None \<Rightarrow> 0 | Some n \<Rightarrow> n)"

definition writeDecimal :: "string \<Rightarrow> unit writer" where
  "writeDecimal hexString w =
     Return ((), foldl (\<lambda>w' i. pushByte (byteOfParse (parseInt16 (slice2 hexString (2 * i)))) w')
                   w [0 ..< 16])"

definition writeDateTime :: "int \<Rightarrow> unit writer" where
  "writeDateTime v w = writeUInt64 v w"

definition writeTimeSpan :: "int \<Rightarrow> unit writer" where
  "writeTimeSpan v w = writeInt64 v w"

section \<open>GUID helpers of ClassRecord\<close>

text \<open>
  \<open>guidRecord.getValue('_a') as number\<close>: the model follows the cast, a member that is
  not a number holding an integer is \<open>OutsideModel\<close>.
\<close>

definition asNumber :: "ObjectValue option \<Rightarrow> int option" where
  "asNumber v = (case v of Some (Prim (PNumber (Integer n))) \<Rightarrow> Some n | _ \<Rightarrow> None)"

definition slice :: "string \<Rightarrow> nat \<Rightarrow> nat \<Rightarrow> string" where
  "slice s i j = take (j - i) (drop i s)"

fun guidOfMembers :: "int list \<Rightarrow> string outcome" where
  "guidOfMembers [a, b, c, d, e, f, g, h, i, j, k] =
     (let bytes = (map word_of_int
            [js_and a 0xFF, js_and (js_sar a 8) 0xFF, js_and (js_sar a 16) 0xFF,
             js_and (js_sar a 24) 0xFF,
             js_and b 0xFF, js_and (js_sar b 8) 0xFF,
             js_and c 0xFF, js_and (js_sar c 8) 0xFF,
             d, e, f, g, h, i, j, k] :: byte list);
          hex = concat (map (\<lambda>b. toHex2 (uint b)) bytes)
      in Return (slice hex 0 8 @ ''-'' @ slice hex 8 12 @ ''-'' @ slice hex 12 16 @ ''-''
                 @ slice hex 16 20 @ ''-'' @ drop 20 hex))"
| "guidOfMembers _ = OutsideModel"

definition guidMemberNames :: "string list" where
  "guidMemberNames = [''_a'', ''_b'', ''_c'', ''_d'', ''_e'', ''_f'', ''_g'', ''_h'', ''_i'',
     ''_j'', ''_k'']"

definition reconstructGuid :: "NrbfRecord \<Rightarrow> string outcome" where
  "reconstructGuid guidRecord =
     (case those (map (\<lambda>n. asNumber (getValue guidRecord n)) guidMemberNames) of
        Some ms \<Rightarrow> guidOfMembers ms
      | None \<Rightarrow> OutsideModel)"

text \<open>A run of \<open>setValue\<close> calls, stopping at the first that throws.\<close>

fun setValues :: "NrbfRecord \<Rightarrow> (string \<times> ObjectValue) list \<Rightarrow> NrbfRecord outcome" where
  "setValues r [] = Return r"
| "setValues r ((n, v) # rest) =
     (case setValue r n v of
        (Return _, r') \<Rightarrow> setValues r' rest
      | (Throw e, _) \<Rightarrow> Throw e
      | (OutOfFuel, _) \<Rightarrow> OutOfFuel
      | (OutsideModel, _) \<Rightarrow> OutsideModel)"

definition createGuidRecord :: "int \<Rightarrow> string \<Rightarrow> NrbfRecord outcome" where
  "createGuidRecord objId guidString =
     (let hex = filter (\<lambda>c. c \<noteq> CHR ''-'') guidString;
          bytes = (map (\<lambda>i. word_of_int (byteOfParse (parseInt16 (slice2 hex (2 * i)))))
                     [0 ..< 16] :: byte list);
          classInfo = \<lparr>ci_objectId = objId, ci_name = ''System.Guid'', ci_memberCount = 11,
                       ci_memberNames = guidMemberNames\<rparr>;
          memberTypeInfo = \<lparr>binaryTypeEnums = replicate 11 BinaryType_Primitive,
                            additionalInfos =
                              [AT_Primitive PrimitiveType_Int32, AT_Primitive PrimitiveType_Int16,
                               AT_Primitive PrimitiveType_Int16]
                              @ replicate 8 (AT_Primitive PrimitiveType_Byte)\<rparr>;
          record = ClassRecord classInfo (Some memberTypeInfo) None SystemClassWithMembersAndTypes [];
          num = (\<lambda>n. Prim (PNumber (Integer n)))
      in setValues record
           [(''_a'', num (ToInt32 (le_uint (take 4 bytes)))),
            (''_b'', num (ToInt16 (le_uint (take 2 (drop 4 bytes))))),
            (''_c'', num (ToInt16 (le_uint (take 2 (drop 6 bytes))))),
            (''_d'', num (uint (bytes ! 8))),
            (''_e'', num (uint (bytes ! 9))),
            (''_f'', num (uint (bytes ! 10))),
            (''_g'', num (uint (bytes ! 11))),
            (''_h'', num (uint (bytes ! 12))),
            (''_i'', num (uint (bytes ! 13))),
            (''_j'', num (uint (bytes ! 14))),
            (''_k'', num (uint (bytes ! 15)))])"

section \<open>NrbfDecoder\<close>

text \<open>
  The record table holds references to record objects, and a class record is entered in
  it before its member values are read into it. The model keeps the objects in a store:
  \<open>recordMap\<close> maps an object id to an address, \<open>heap\<close> maps an address to the record as
  it is once decoded. Nothing reads the table while decoding.
\<close>

record NrbfDecoder =
  reader :: BinaryReader
  recordMap :: "int \<rightharpoonup> nat"
  heap :: "nat \<rightharpoonup> NrbfRecord"
  nextAddr :: nat
  libraryMap :: "int \<rightharpoonup> string"
  metadataMap :: "int \<rightharpoonup> (ClassInfo \<times> MemberTypeInfo option \<times> int option)"

type_synonym 'a decoder = "NrbfDecoder \<Rightarrow> ('a \<times> NrbfDecoder) outcome"

definition newNrbfDecoder :: "byte list \<Rightarrow> NrbfDecoder" where
  "newNrbfDecoder buffer =
     \<lparr>reader = newBinaryReader buffer, recordMap = Map.empty, heap = Map.empty, nextAddr = 0,
      libraryMap = Map.empty, metadataMap = Map.empty\<rparr>"

definition rd :: "'a reader \<Rightarrow> 'a decoder" where
  "rd f d = (case f (reader d) of
      Return (a, r') \<Rightarrow> Return (a, d\<lparr>reader := r'\<rparr>)
    | Throw e \<Rightarrow> Throw e
    | OutOfFuel \<Rightarrow> OutOfFuel
    | OutsideModel \<Rightarrow> OutsideModel)"

definition getRecord :: "NrbfDecoder \<Rightarrow> int \<Rightarrow> NrbfRecord option" where
  "getRecord d objId = (case recordMap d objId of None \<Rightarrow> None | Some a \<Rightarrow> heap d a)"

text \<open>\<open>this.recordMap.set(objectId, record)\<close> for a new object; its address is returned.\<close>

definition recordMap_set :: "int \<Rightarrow> NrbfRecord \<Rightarrow> nat decoder" where
  "recordMap_set objId r d =
     Return (nextAddr d,
       d\<lparr>recordMap := (recordMap d)(objId \<mapsto> nextAddr d),
         heap := (heap d)(nextAddr d \<mapsto> r),
         nextAddr := Suc (nextAddr d)\<rparr>)"

definition heap_store :: "nat \<Rightarrow> NrbfRecord \<Rightarrow> unit decoder" where
  "heap_store a r d = Return ((), d\<lparr>heap := (heap d)(a \<mapsto> r)\<rparr>)"

definition metadataMap_set ::
    "int \<Rightarrow> ClassInfo \<times> MemberTypeInfo option \<times> int option \<Rightarrow> unit decoder" where
  "metadataMap_set objId m d = Return ((), d\<lparr>metadataMap := (metadataMap d)(objId \<mapsto> m)\<rparr>)"

definition resolveReference :: "NrbfDecoder \<Rightarrow> int \<Rightarrow> NrbfRecord outcome" where
  "resolveReference d idRef =
     (case getRecord d idRef of None \<Rightarrow> Throw (CannotResolveReference idRef) | Some r \<Rightarrow> Return r)"

text \<open>A counted \<open>for\<close> loop that pushes one value per round.\<close>

fun repeat :: "nat \<Rightarrow> ('s \<Rightarrow> ('a \<times> 's) outcome) \<Rightarrow> 's \<Rightarrow> ('a list \<times> 's) outcome" where
  "repeat 0 m st = unit [] st"
| "repeat (Suc n) m st = bind m (\<lambda>x. bind (repeat n m) (\<lambda>xs. unit (x # xs))) st"

fun forEach :: "'b list \<Rightarrow> ('b \<Rightarrow> 's \<Rightarrow> ('a \<times> 's) outcome) \<Rightarrow> 's \<Rightarrow> ('a list \<times> 's) outcome" where
  "forEach [] m st = unit [] st"
| "forEach (b # bs) m st = bind (m b) (\<lambda>x. bind (forEach bs m) (\<lambda>xs. unit (x # xs))) st"

definition decodeSerializationHeader :: "NrbfRecord decoder" where
  "decodeSerializationHeader st =
     (bind (rd readInt32) (\<lambda>rootId.
     bind (rd readInt32) (\<lambda>headerId.
     bind (rd readInt32) (\<lambda>majorVersion.
     bind (rd readInt32) (\<lambda>minorVersion.
       unit (SerializationHeader rootId headerId majorVersion minorVersion)))))) st"

definition decodeBinaryLibrary :: "NrbfRecord decoder" where
  "decodeBinaryLibrary st =
     (bind (rd readInt32) (\<lambda>libraryId.
     bind (rd readLengthPrefixedString) (\<lambda>libraryName d.
       Return (BinaryLibraryRecord libraryId libraryName,
               d\<lparr>libraryMap := (libraryMap d)(libraryId \<mapsto> libraryName)\<rparr>)))) st"

definition readClassInfo :: "ClassInfo decoder" where
  "readClassInfo st =
     (bind (rd readInt32) (\<lambda>objId.
     bind (rd readLengthPrefixedString) (\<lambda>name.
     bind (rd readInt32) (\<lambda>memberCount.
     bind (repeat (nat memberCount) (rd readLengthPrefixedString)) (\<lambda>memberNames.
       unit \<lparr>ci_objectId = objId, ci_name = name, ci_memberCount = memberCount,
              ci_memberNames = memberNames\<rparr>))))) st"

definition readAdditionalTypeInfo :: "BinaryType \<Rightarrow> AdditionalTypeInfo decoder" where
  "readAdditionalTypeInfo binaryType st =
     ((if binaryType = BinaryType_Primitive then
        bind (rd readByte) (\<lambda>primitiveType. unit (AT_Primitive primitiveType))
      else if binaryType = BinaryType_SystemClass then
        bind (rd readLengthPrefixedString) (\<lambda>className. unit (AT_SystemClass className))
      else if binaryType = BinaryType_Class then
        bind (rd readLengthPrefixedString) (\<lambda>className.
        bind (rd readInt32) (\<lambda>libraryId. unit (AT_Class className libraryId)))
      else unit AT_None)) st"

definition readMemberTypeInfo :: "int \<Rightarrow> MemberTypeInfo decoder" where
  "readMemberTypeInfo memberCount st =
     (bind (repeat (nat memberCount) (rd readByte)) (\<lambda>bts.
     bind (forEach bts readAdditionalTypeInfo) (\<lambda>ais.
       unit \<lparr>binaryTypeEnums = bts, additionalInfos = ais\<rparr>))) st"

definition readPrimitiveValue :: "PrimitiveType \<Rightarrow> PrimitiveValue decoder" where
  "readPrimitiveValue primitiveType st =
     ((if primitiveType = PrimitiveType_Boolean then
        bind (rd readBoolean) (\<lambda>v. unit (PBoolean v))
      else if primitiveType = PrimitiveType_Byte then
        bind (rd readByte) (\<lambda>v. unit (PNumber (Integer v)))
      else if primitiveType = PrimitiveType_SByte then
        bind (rd readSByte) (\<lambda>v. unit (PNumber (Integer v)))
      else if primitiveType = PrimitiveType_Char then
        bind (rd readChar) (\<lambda>v. unit (PString v))
      else if primitiveType = PrimitiveType_Int16 then
        bind (rd readInt16) (\<lambda>v. unit (PNumber (Integer v)))
      else if primitiveType = PrimitiveType_UInt16 then
        bind (rd readUInt16) (\<lambda>v. unit (PNumber (Integer v)))
      else if primitiveType = PrimitiveType_Int32 then
        bind (rd readInt32) (\<lambda>v. unit (PNumber (Integer v)))
      else if primitiveType = PrimitiveType_UInt32 then
        bind (rd readUInt32) (\<lambda>v. unit (PNumber (Integer v)))
      else if primitiveType = PrimitiveType_Int64 then
        bind (rd readInt64) (\<lambda>v. unit (PNumber (Integer (Number_of_bigint v))))
      else if primitiveType = PrimitiveType_UInt64 then
        bind (rd readUInt64) (\<lambda>v. unit (PNumber (Integer (Number_of_bigint v))))
      else if primitiveType = PrimitiveType_Single then
        bind (rd readSingle) (\<lambda>v. unit (PNumber v))
      else if primitiveType = PrimitiveType_Double then
        bind (rd readDouble) (\<lambda>v. unit (PNumber v))
      else if primitiveType = PrimitiveType_Decimal then
        bind (rd readDecimal) (\<lambda>v. unit (PString v))
      else if primitiveType = PrimitiveType_DateTime then
        bind (rd readDateTime) (\<lambda>v. unit (PNumber (Integer (Number_of_bigint v))))
      else if primitiveType = PrimitiveType_TimeSpan then
        bind (rd readTimeSpan) (\<lambda>v. unit (PNumber (Integer (Number_of_bigint v))))
      else if primitiveType = PrimitiveType_String then
        bind (rd readLengthPrefixedString) (\<lambda>v. unit (PString v))
      else if primitiveType = PrimitiveType_Null then
        unit PNull
      else throw (UnsupportedPrimitiveType primitiveType))) st"

text \<open>
  The functions below call \<open>decodeNext\<close>; they take it as the argument \<open>next\<close>.
  \<open>readObjectValue\<close> gets \<open>None\<close> where the caller's array read is out of range
  (\<open>undefined\<close>).
\<close>

definition readObjectValue ::
    "NrbfRecord decoder \<Rightarrow> BinaryType option \<Rightarrow> AdditionalTypeInfo option \<Rightarrow> ObjectValue decoder"
where
  "readObjectValue next binaryType additionalInfo st =
     ((if binaryType = Some BinaryType_Primitive then
        (case additionalInfo of
           None \<Rightarrow> throw TypeError
         | Some (AT_Primitive primitiveType) \<Rightarrow>
             bind (readPrimitiveValue primitiveType) (\<lambda>v. unit (Prim v))
         | Some _ \<Rightarrow> bind next (\<lambda>r. unit (Rec r)))
      else bind next (\<lambda>r. unit (Rec r)))) st"

definition nth_opt :: "'a list \<Rightarrow> nat \<Rightarrow> 'a option" where
  "nth_opt xs i = (if i < length xs then Some (xs ! i) else None)"

fun readMemberValues ::
    "NrbfRecord decoder \<Rightarrow> nat \<Rightarrow> string list \<Rightarrow> MemberTypeInfo
       \<Rightarrow> (string \<times> ObjectValue) list \<Rightarrow> ((string \<times> ObjectValue) list) decoder"
where
  "readMemberValues next i [] memberTypeInfo mv st = unit mv st"
| "readMemberValues next i (memberName # rest) memberTypeInfo mv st =
     bind (readObjectValue next (nth_opt (binaryTypeEnums memberTypeInfo) i)
             (nth_opt (additionalInfos memberTypeInfo) i)) (\<lambda>v.
       readMemberValues next (Suc i) rest memberTypeInfo (AList.update memberName v mv)) st"

text \<open>The loop \<open>for (const memberName of classInfo.memberNames)\<close> of the untyped classes.\<close>

fun readMemberRecords ::
    "NrbfRecord decoder \<Rightarrow> string list \<Rightarrow> (string \<times> ObjectValue) list
       \<Rightarrow> ((string \<times> ObjectValue) list) decoder"
where
  "readMemberRecords next [] mv st = unit mv st"
| "readMemberRecords next (memberName # rest) mv st =
     bind next (\<lambda>v. readMemberRecords next rest (AList.update memberName (Rec v) mv)) st"

definition decodeClassWithMembersAndTypes :: "NrbfRecord decoder \<Rightarrow> NrbfRecord decoder" where
  "decodeClassWithMembersAndTypes next st =
     (bind readClassInfo (\<lambda>classInfo.
     bind (readMemberTypeInfo (ci_memberCount classInfo)) (\<lambda>memberTypeInfo.
     bind (rd readInt32) (\<lambda>libraryId.
     bind (metadataMap_set (ci_objectId classInfo)
             (classInfo, Some memberTypeInfo, Some libraryId)) (\<lambda>_.
     bind (recordMap_set (ci_objectId classInfo)
             (ClassRecord classInfo (Some memberTypeInfo) (Some libraryId)
                ClassWithMembersAndTypes [])) (\<lambda>a.
     bind (readMemberValues next 0 (ci_memberNames classInfo) memberTypeInfo []) (\<lambda>mv.
     bind (heap_store a (ClassRecord classInfo (Some memberTypeInfo) (Some libraryId)
                ClassWithMembersAndTypes mv)) (\<lambda>_.
       unit (ClassRecord classInfo (Some memberTypeInfo) (Some libraryId)
                ClassWithMembersAndTypes mv))))))))) st"

definition decodeSystemClassWithMembersAndTypes :: "NrbfRecord decoder \<Rightarrow> NrbfRecord decoder" where
  "decodeSystemClassWithMembersAndTypes next st =
     (bind readClassInfo (\<lambda>classInfo.
     bind (readMemberTypeInfo (ci_memberCount classInfo)) (\<lambda>memberTypeInfo.
     bind (metadataMap_set (ci_objectId classInfo) (classInfo, Some memberTypeInfo, None)) (\<lambda>_.
     bind (recordMap_set (ci_objectId classInfo)
             (ClassRecord classInfo (Some memberTypeInfo) None
                SystemClassWithMembersAndTypes [])) (\<lambda>a.
     bind (readMemberValues next 0 (ci_memberNames classInfo) memberTypeInfo []) (\<lambda>mv.
     bind (heap_store a (ClassRecord classInfo (Some memberTypeInfo) None
                SystemClassWithMembersAndTypes mv)) (\<lambda>_.
       unit (ClassRecord classInfo (Some memberTypeInfo) None
                SystemClassWithMembersAndTypes mv)))))))) st"

definition decodeSystemClassWithMembers :: "NrbfRecord decoder \<Rightarrow> NrbfRecord decoder" where
  "decodeSystemClassWithMembers next st =
     (bind readClassInfo (\<lambda>classInfo.
     bind (metadataMap_set (ci_objectId classInfo) (classInfo, None, None)) (\<lambda>_.
     bind (recordMap_set (ci_objectId classInfo)
             (ClassRecord classInfo None None SystemClassWithMembers [])) (\<lambda>a.
     bind (readMemberRecords next (ci_memberNames classInfo) []) (\<lambda>mv.
     bind (heap_store a (ClassRecord classInfo None None SystemClassWithMembers mv)) (\<lambda>_.
       unit (ClassRecord classInfo None None SystemClassWithMembers mv))))))) st"

definition decodeClassWithMembers :: "NrbfRecord decoder \<Rightarrow> NrbfRecord decoder" where
  "decodeClassWithMembers next st =
     (bind readClassInfo (\<lambda>classInfo.
     bind (rd readInt32) (\<lambda>libraryId.
     bind (metadataMap_set (ci_objectId classInfo) (classInfo, None, Some libraryId)) (\<lambda>_.
     bind (recordMap_set (ci_objectId classInfo)
             (ClassRecord classInfo None (Some libraryId) ClassWithMembers [])) (\<lambda>a.
     bind (readMemberRecords next (ci_memberNames classInfo) []) (\<lambda>mv.
     bind (heap_store a (ClassRecord classInfo None (Some libraryId) ClassWithMembers mv)) (\<lambda>_.
       unit (ClassRecord classInfo None (Some libraryId) ClassWithMembers mv)))))))) st"

definition decodeClassWithId :: "NrbfRecord decoder \<Rightarrow> NrbfRecord decoder" where
  "decodeClassWithId next st =
     (bind (rd readInt32) (\<lambda>objId.
     bind (rd readInt32) (\<lambda>metadataId d.
       case metadataMap d metadataId of
         None \<Rightarrow> Throw (MetadataNotFound metadataId)
       | Some (mClassInfo, mMemberTypeInfo, mLibraryId) \<Rightarrow>
           (let classInfo = \<lparr>ci_objectId = objId, ci_name = ci_name mClassInfo,
                              ci_memberCount = ci_memberCount mClassInfo,
                              ci_memberNames = ci_memberNames mClassInfo\<rparr>
            in bind (recordMap_set objId
                       (ClassRecord classInfo mMemberTypeInfo mLibraryId ClassWithId [])) (\<lambda>a.
               bind (case mMemberTypeInfo of
                       Some memberTypeInfo \<Rightarrow>
                         readMemberValues next 0 (ci_memberNames classInfo) memberTypeInfo []
                     | None \<Rightarrow> readMemberRecords next (ci_memberNames classInfo) []) (\<lambda>mv.
               bind (heap_store a
                       (ClassRecord classInfo mMemberTypeInfo mLibraryId ClassWithId mv)) (\<lambda>_.
                 unit (ClassRecord classInfo mMemberTypeInfo mLibraryId ClassWithId mv)))) d)))) st"

definition decodeBinaryObjectString :: "NrbfRecord decoder" where
  "decodeBinaryObjectString st =
     (bind (rd readInt32) (\<lambda>objId.
     bind (rd readLengthPrefixedString) (\<lambda>v.
     bind (recordMap_set objId (BinaryObjectStringRecord objId v)) (\<lambda>_.
       unit (BinaryObjectStringRecord objId v))))) st"

text \<open>
  The \<open>while (i < count)\<close> loop of \<open>readAllElements\<close>. A null run adds its count to \<open>i\<close>,
  which a negative count lowers, so the loop is bounded by fuel: one unit per round.
\<close>

fun readAllElements_loop ::
    "NrbfRecord decoder \<Rightarrow> nat \<Rightarrow> int \<Rightarrow> BinaryType \<Rightarrow> AdditionalTypeInfo \<Rightarrow> int
       \<Rightarrow> ObjectValue list \<Rightarrow> (ObjectValue list) decoder"
where
  "readAllElements_loop next 0 count binaryType additionalInfo i elements st =
     (if i < count then OutOfFuel else unit elements st)"
| "readAllElements_loop next (Suc fuel) count binaryType additionalInfo i elements st =
     (if i < count then
        bind (readObjectValue next (Some binaryType) (Some additionalInfo)) (\<lambda>val.
          case val of
            Rec (ObjectNullMultipleRecord nullCount) \<Rightarrow>
              readAllElements_loop next fuel count binaryType additionalInfo (i + nullCount)
                (elements @ replicate (nat nullCount) (Prim PNull))
          | Rec (ObjectNullMultiple256Record nullCount) \<Rightarrow>
              readAllElements_loop next fuel count binaryType additionalInfo (i + nullCount)
                (elements @ replicate (nat nullCount) (Prim PNull))
          | Rec ObjectNullRecord \<Rightarrow>
              readAllElements_loop next fuel count binaryType additionalInfo (i + 1)
                (elements @ [Prim PNull])
          | _ \<Rightarrow>
              readAllElements_loop next fuel count binaryType additionalInfo (i + 1)
                (elements @ [val])) st
      else unit elements st)"

definition readAllElements ::
    "NrbfRecord decoder \<Rightarrow> nat \<Rightarrow> int \<Rightarrow> BinaryType \<Rightarrow> AdditionalTypeInfo
       \<Rightarrow> (ObjectValue list) decoder"
where
  "readAllElements next fuel count binaryType additionalInfo st =
     (readAllElements_loop next fuel count binaryType additionalInfo 0 []) st"

definition decodeBinaryArray :: "NrbfRecord decoder \<Rightarrow> nat \<Rightarrow> NrbfRecord decoder" where
  "decodeBinaryArray next fuel st =
     (bind (rd readInt32) (\<lambda>objId.
     bind (rd readByte) (\<lambda>binaryArrayTypeEnum.
     bind (rd readInt32) (\<lambda>rank.
     bind (repeat (nat rank) (rd readInt32)) (\<lambda>lengths.
     bind (if binaryArrayTypeEnum = BinaryArrayType_SingleOffset
              \<or> binaryArrayTypeEnum = BinaryArrayType_JaggedOffset
              \<or> binaryArrayTypeEnum = BinaryArrayType_RectangularOffset
           then bind (repeat (nat rank) (rd readInt32)) (\<lambda>bounds. unit (Some bounds))
           else unit None) (\<lambda>lowerBounds.
     bind (rd readByte) (\<lambda>typeEnum.
     bind (readAdditionalTypeInfo typeEnum) (\<lambda>additionalTypeInfo.
     bind (readAllElements next fuel (foldl (\<lambda>a b. a * b) 1 lengths) typeEnum
             additionalTypeInfo) (\<lambda>elementValues.
     bind (recordMap_set objId
             (BinaryArrayRecord objId binaryArrayTypeEnum rank lengths lowerBounds typeEnum
                additionalTypeInfo elementValues)) (\<lambda>_.
       unit (BinaryArrayRecord objId binaryArrayTypeEnum rank lengths lowerBounds typeEnum
               additionalTypeInfo elementValues))))))))))) st"

definition decodeArraySinglePrimitive :: "NrbfRecord decoder" where
  "decodeArraySinglePrimitive st =
     (bind (rd readInt32) (\<lambda>objId.
     bind (rd readInt32) (\<lambda>len.
     bind (rd readByte) (\<lambda>primitiveTypeEnum.
     bind (repeat (nat len) (readPrimitiveValue primitiveTypeEnum)) (\<lambda>elements.
     bind (recordMap_set objId
             (ArraySinglePrimitiveRecord objId len primitiveTypeEnum elements)) (\<lambda>_.
       unit (ArraySinglePrimitiveRecord objId len primitiveTypeEnum elements))))))) st"

definition decodeArraySingleObject :: "NrbfRecord decoder \<Rightarrow> nat \<Rightarrow> NrbfRecord decoder" where
  "decodeArraySingleObject next fuel st =
     (bind (rd readInt32) (\<lambda>objId.
     bind (rd readInt32) (\<lambda>len.
     bind (readAllElements next fuel len BinaryType_Object AT_None) (\<lambda>elements.
     bind (recordMap_set objId (ArraySingleObjectRecord objId len elements)) (\<lambda>_.
       unit (ArraySingleObjectRecord objId len elements)))))) st"

definition decodeArraySingleString :: "NrbfRecord decoder \<Rightarrow> nat \<Rightarrow> NrbfRecord decoder" where
  "decodeArraySingleString next fuel st =
     (bind (rd readInt32) (\<lambda>objId.
     bind (rd readInt32) (\<lambda>len.
     bind (readAllElements next fuel len BinaryType_String AT_None) (\<lambda>elements.
     bind (recordMap_set objId (ArraySingleStringRecord objId len elements)) (\<lambda>_.
       unit (ArraySingleStringRecord objId len elements)))))) st"

definition decodeMemberPrimitiveTyped :: "NrbfRecord decoder" where
  "decodeMemberPrimitiveTyped st =
     (bind (rd readByte) (\<lambda>primitiveTypeEnum.
     bind (readPrimitiveValue primitiveTypeEnum) (\<lambda>v.
       unit (MemberPrimitiveTypedRecord primitiveTypeEnum v)))) st"

definition decodeMemberReference :: "NrbfRecord decoder" where
  "decodeMemberReference st = (bind (rd readInt32) (\<lambda>idRef. unit (MemberReferenceRecord idRef))) st"

definition decodeObjectNullMultiple :: "NrbfRecord decoder" where
  "decodeObjectNullMultiple st =
     (bind (rd readInt32) (\<lambda>nullCount. unit (ObjectNullMultipleRecord nullCount))) st"

definition decodeObjectNullMultiple256 :: "NrbfRecord decoder" where
  "decodeObjectNullMultiple256 st =
     (bind (rd readByte) (\<lambda>nullCount. unit (ObjectNullMultiple256Record nullCount))) st"

text \<open>
  \<open>decodeNext\<close> is recursive through the member values and array elements of the
  records it reads; the fuel bounds the depth of the recursion and, inside an array, the
  number of rounds of the element loop. The error of an unsupported record type carries
  the byte, its offset and the context window of at most 32 bytes from 16 bytes before it.
\<close>

definition contextBytes :: "NrbfDecoder \<Rightarrow> nat \<Rightarrow> byte list" where
  "contextBytes d pos = take 32 (drop (pos - 16) (view (reader d)))"

fun decodeNext :: "nat \<Rightarrow> NrbfRecord decoder" where
  "decodeNext 0 d0 = OutOfFuel"
| "decodeNext (Suc fuel) d0 =
     bind (rd readByte) (\<lambda>recordTypeByte.
       if recordTypeByte \<notin> set [0, 1, 2, 3, 4, 5, 6, 7, 8, 9, 10, 11, 12, 13, 14, 15, 16, 17]
       then (\<lambda>d. Throw (UnsupportedRecordType recordTypeByte (getPosition (reader d0))
                        (contextBytes d (getPosition (reader d0)))))
       else if recordTypeByte = RecordType_value SerializedStreamHeader then
         decodeSerializationHeader
       else if recordTypeByte = RecordType_value BinaryLibrary then
         decodeBinaryLibrary
       else if recordTypeByte = RecordType_value ClassWithMembersAndTypes then
         decodeClassWithMembersAndTypes (decodeNext fuel)
       else if recordTypeByte = RecordType_value SystemClassWithMembersAndTypes then
         decodeSystemClassWithMembersAndTypes (decodeNext fuel)
       else if recordTypeByte = RecordType_value SystemClassWithMembers then
         decodeSystemClassWithMembers (decodeNext fuel)
       else if recordTypeByte = RecordType_value ClassWithMembers then
         decodeClassWithMembers (decodeNext fuel)
       else if recordTypeByte = RecordType_value ClassWithId then
         decodeClassWithId (decodeNext fuel)
       else if recordTypeByte = RecordType_value BinaryObjectString then
         decodeBinaryObjectString
       else if recordTypeByte = RecordType_value BinaryArray then
         decodeBinaryArray (decodeNext fuel) fuel
       else if recordTypeByte = RecordType_value ArraySinglePrimitive then
         decodeArraySinglePrimitive
       else if recordTypeByte = RecordType_value ArraySingleObject then
         decodeArraySingleObject (decodeNext fuel) fuel
       else if recordTypeByte = RecordType_value ArraySingleString then
         decodeArraySingleString (decodeNext fuel) fuel
       else if recordTypeByte = RecordType_value MemberPrimitiveTyped then
         decodeMemberPrimitiveTyped
       else if recordTypeByte = RecordType_value MemberReference then
         decodeMemberReference
       else if recordTypeByte = RecordType_value ObjectNull then
         unit ObjectNullRecord
       else if recordTypeByte = RecordType_value ObjectNullMultiple then
         decodeObjectNullMultiple
       else if recordTypeByte = RecordType_value ObjectNullMultiple256 then
         decodeObjectNullMultiple256
       else unit MessageEndRecord) d0"

text \<open>
  The \<open>do ... while\<close> loop of \<open>decode\<close>: it throws once more than 100000 records are
  read. The model's loop takes one unit of fuel per record.
\<close>

fun decode_loop :: "nat \<Rightarrow> nat \<Rightarrow> nat \<Rightarrow> unit decoder" where
  "decode_loop fuel 0 count st = OutOfFuel"
| "decode_loop fuel (Suc rounds) count st =
     bind (decodeNext fuel) (\<lambda>record.
       if Suc count > 100000 then throw TooManyRecords
       else if record = MessageEndRecord then unit ()
       else decode_loop fuel rounds (Suc count)) st"

text \<open>
  \<open>decode\<close> returns the root record; the decoder object keeps its tables, which the
  model returns with the root.
\<close>

definition decode_run :: "nat \<Rightarrow> NrbfRecord decoder" where
  "decode_run fuel st =
     (bind (rd readByte) (\<lambda>headerByte.
       if headerByte \<noteq> RecordType_value SerializedStreamHeader
       then throw (InvalidHeader headerByte)
       else
     bind (rd readInt32) (\<lambda>rootId.
     bind (rd readInt32) (\<lambda>headerId.
     bind (rd readInt32) (\<lambda>majorVersion.
     bind (rd readInt32) (\<lambda>minorVersion.
     bind (decode_loop fuel fuel 0) (\<lambda>_ d.
       case getRecord d rootId of
         None \<Rightarrow> Throw (RootNotFound rootId)
       | Some root \<Rightarrow> Return (root, d)))))))) st"

definition decode :: "nat \<Rightarrow> byte list \<Rightarrow> NrbfRecord outcome" where
  "decode fuel buffer =
     (case decode_run fuel (newNrbfDecoder buffer) of
        Return (root, d) \<Rightarrow> Return root
      | Throw e \<Rightarrow> Throw e
      | OutOfFuel \<Rightarrow> OutOfFuel
      | OutsideModel \<Rightarrow> OutsideModel)"

section \<open>NrbfEncoder\<close>

record NrbfEncoder =
  writer :: BinaryWriter
  writtenRecords :: "int set"

type_synonym 'a encoder = "NrbfEncoder \<Rightarrow> ('a \<times> NrbfEncoder) outcome"

definition newNrbfEncoder :: NrbfEncoder where
  "newNrbfEncoder = \<lparr>writer = newBinaryWriter, writtenRecords = {}\<rparr>"

definition wr :: "'a writer \<Rightarrow> 'a encoder" where
  "wr f st = (case f (writer st) of
      Return (a, w') \<Rightarrow> Return (a, st\<lparr>writer := w'\<rparr>)
    | Throw e \<Rightarrow> Throw e
    | OutOfFuel \<Rightarrow> OutOfFuel
    | OutsideModel \<Rightarrow> OutsideModel)"

text \<open>A \<open>for ... of\<close> loop run for its effect.\<close>

fun forEachDo :: "'b list \<Rightarrow> ('b \<Rightarrow> 's \<Rightarrow> (unit \<times> 's) outcome) \<Rightarrow> 's \<Rightarrow> (unit \<times> 's) outcome" where
  "forEachDo [] m st = unit () st"
| "forEachDo (b # bs) m st = bind (m b) (\<lambda>_. forEachDo bs m) st"

definition writeClassInfo :: "ClassInfo \<Rightarrow> unit encoder" where
  "writeClassInfo classInfo st =
     (bind (wr (writeInt32 (ci_objectId classInfo))) (\<lambda>_.
      bind (wr (writeLengthPrefixedString (ci_name classInfo))) (\<lambda>_.
      bind (wr (writeInt32 (ci_memberCount classInfo))) (\<lambda>_.
        forEachDo (ci_memberNames classInfo) (\<lambda>memberName.
          wr (writeLengthPrefixedString memberName)))))) st"

definition writeAdditionalTypeInfo :: "AdditionalTypeInfo \<Rightarrow> unit encoder" where
  "writeAdditionalTypeInfo info st =
     (case info of
        AT_Primitive primitiveType \<Rightarrow> wr (writeByte primitiveType)
      | AT_SystemClass className \<Rightarrow> wr (writeLengthPrefixedString className)
      | AT_Class className libraryId \<Rightarrow>
          bind (wr (writeLengthPrefixedString className)) (\<lambda>_. wr (writeInt32 libraryId))
      | AT_None \<Rightarrow> unit ()) st"

definition writeMemberTypeInfo :: "MemberTypeInfo \<Rightarrow> unit encoder" where
  "writeMemberTypeInfo memberTypeInfo st =
     (bind (forEachDo (binaryTypeEnums memberTypeInfo) (\<lambda>bt. wr (writeByte bt))) (\<lambda>_.
        forEachDo (additionalInfos memberTypeInfo) writeAdditionalTypeInfo)) st"

text \<open>
  \<open>writePrimitiveValue\<close> casts the value to the type its tag asks for; the model follows
  the cast where the value has that type and is \<open>OutsideModel\<close> where it has not.
\<close>

definition writePrimitiveValue :: "PrimitiveValue \<Rightarrow> PrimitiveType \<Rightarrow> unit encoder" where
  "writePrimitiveValue v type st =
     (if v = PNull then unit ()
      else if type = PrimitiveType_Boolean then
        (case v of PBoolean b \<Rightarrow> wr (writeBoolean b) | _ \<Rightarrow> (\<lambda>_. OutsideModel))
      else if type = PrimitiveType_Byte then
        (case v of PNumber (Integer n) \<Rightarrow> wr (writeByte n) | _ \<Rightarrow> (\<lambda>_. OutsideModel))
      else if type = PrimitiveType_SByte then
        (case v of PNumber (Integer n) \<Rightarrow> wr (writeSByte n) | _ \<Rightarrow> (\<lambda>_. OutsideModel))
      else if type = PrimitiveType_Char then
        (case v of PString s \<Rightarrow> wr (writeChar s) | _ \<Rightarrow> (\<lambda>_. OutsideModel))
      else if type = PrimitiveType_Int16 then
        (case v of PNumber (Integer n) \<Rightarrow> wr (writeInt16 n) | _ \<Rightarrow> (\<lambda>_. OutsideModel))
      else if type = PrimitiveType_UInt16 then
        (case v of PNumber (Integer n) \<Rightarrow> wr (writeUInt16 n) | _ \<Rightarrow> (\<lambda>_. OutsideModel))
      else if type = PrimitiveType_Int32 then
        (case v of PNumber (Integer n) \<Rightarrow> wr (writeInt32 n) | _ \<Rightarrow> (\<lambda>_. OutsideModel))
      else if type = PrimitiveType_UInt32 then
        (case v of PNumber (Integer n) \<Rightarrow> wr (writeUInt32 n) | _ \<Rightarrow> (\<lambda>_. OutsideModel))
      else if type = PrimitiveType_Int64 then
        (case v of PNumber (Integer n) \<Rightarrow> wr (writeInt64 n) | _ \<Rightarrow> (\<lambda>_. OutsideModel))
      else if type = PrimitiveType_UInt64 then
        (case v of PNumber (Integer n) \<Rightarrow> wr (writeUInt64 n) | _ \<Rightarrow> (\<lambda>_. OutsideModel))
      else if type = PrimitiveType_Single then
        (case v of PNumber n \<Rightarrow> wr (writeSingle n) | _ \<Rightarrow> (\<lambda>_. OutsideModel))
      else if type = PrimitiveType_Double then
        (case v of PNumber n \<Rightarrow> wr (writeDouble n) | _ \<Rightarrow> (\<lambda>_. OutsideModel))
      else if type = PrimitiveType_Decimal then
        (case v of PString s \<Rightarrow> wr (writeDecimal s) | _ \<Rightarrow> (\<lambda>_. OutsideModel))
      else if type = PrimitiveType_DateTime then
        (case v of PNumber (Integer n) \<Rightarrow> wr (writeDateTime n) | _ \<Rightarrow> (\<lambda>_. OutsideModel))
      else if type = PrimitiveType_TimeSpan then
        (case v of PNumber (Integer n) \<Rightarrow> wr (writeTimeSpan n) | _ \<Rightarrow> (\<lambda>_. OutsideModel))
      else if type = PrimitiveType_String then
        (case v of PString s \<Rightarrow> wr (writeLengthPrefixedString s) | _ \<Rightarrow> (\<lambda>_. OutsideModel))
      else unit ()) st"

text \<open>
  \<open>record.objectId\<close> as a condition: \<open>null\<close> and \<open>0\<close> are falsy.
\<close>

definition truthyId :: "NrbfRecord \<Rightarrow> int option" where
  "truthyId record = (case objectId record of
      None \<Rightarrow> None
    | Some i \<Rightarrow> if i = 0 then None else Some i)"

definition markWritten :: "NrbfRecord \<Rightarrow> unit encoder" where
  "markWritten record st =
     (case truthyId record of
        None \<Rightarrow> Return ((), st)
      | Some i \<Rightarrow> Return ((), st\<lparr>writtenRecords := insert i (writtenRecords st)\<rparr>))"

text \<open>
  \<open>encodeRecord\<close> with the encoders of the records that hold values, and
  \<open>writeObjectValue\<close>, whose argument \<open>None\<close> is \<open>undefined\<close>. \<open>writeMembers\<close> is the loop
  over the member names of \<open>encodeClassRecord\<close>, \<open>writeElements\<close> the loop over the
  element values of the array encoders.
\<close>

function encodeRecord :: "NrbfRecord \<Rightarrow> unit encoder"
  and writeObjectValue :: "ObjectValue option \<Rightarrow> unit encoder"
  and writeMembers :: "(string \<times> ObjectValue) list \<Rightarrow> string list \<Rightarrow> unit encoder"
  and writeElements :: "ObjectValue list \<Rightarrow> unit encoder"
where
  "encodeRecord record st =
     (if (case truthyId record of None \<Rightarrow> False | Some i \<Rightarrow> i \<in> writtenRecords st)
      then Return ((), st)
      else
        bind (case record of
            ClassRecord classInfo memberTypeInfo libraryId rt mv \<Rightarrow>
              bind (wr (writeByte (RecordType_value rt))) (\<lambda>_.
              bind (writeClassInfo classInfo) (\<lambda>_.
              bind (if rt = ClassWithMembersAndTypes \<or> rt = SystemClassWithMembersAndTypes
                    then (case memberTypeInfo of
                            None \<Rightarrow> throw TypeError
                          | Some m \<Rightarrow> writeMemberTypeInfo m)
                    else unit ()) (\<lambda>_.
              bind (if rt = ClassWithMembersAndTypes \<or> rt = ClassWithMembers
                    then wr (writeInt32 (case libraryId of None \<Rightarrow> 0 | Some l \<Rightarrow> l))
                    else unit ()) (\<lambda>_.
                writeMembers mv (ci_memberNames classInfo)))))
          | BinaryArrayRecord arrayObjectId binaryArrayTypeEnum rank lengths lowerBounds typeEnum
              additionalTypeInfo elementValues \<Rightarrow>
              bind (wr (writeByte (RecordType_value BinaryArray))) (\<lambda>_.
              bind (wr (writeInt32 arrayObjectId)) (\<lambda>_.
              bind (wr (writeByte binaryArrayTypeEnum)) (\<lambda>_.
              bind (wr (writeInt32 rank)) (\<lambda>_.
              bind (forEachDo lengths (\<lambda>len. wr (writeInt32 len))) (\<lambda>_.
              bind (case lowerBounds of
                      None \<Rightarrow> unit ()
                    | Some bounds \<Rightarrow> forEachDo bounds (\<lambda>bound. wr (writeInt32 bound))) (\<lambda>_.
              bind (wr (writeByte typeEnum)) (\<lambda>_.
              bind (writeAdditionalTypeInfo additionalTypeInfo) (\<lambda>_.
                writeElements elementValues))))))))
          | ArraySinglePrimitiveRecord arrayObjectId len primitiveTypeEnum elementValues \<Rightarrow>
              bind (wr (writeByte (RecordType_value ArraySinglePrimitive))) (\<lambda>_.
              bind (wr (writeInt32 arrayObjectId)) (\<lambda>_.
              bind (wr (writeInt32 len)) (\<lambda>_.
              bind (wr (writeByte primitiveTypeEnum)) (\<lambda>_.
                forEachDo elementValues (\<lambda>element.
                  writePrimitiveValue element primitiveTypeEnum)))))
          | ArraySingleObjectRecord arrayObjectId len elementValues \<Rightarrow>
              bind (wr (writeByte (RecordType_value ArraySingleObject))) (\<lambda>_.
              bind (wr (writeInt32 arrayObjectId)) (\<lambda>_.
              bind (wr (writeInt32 len)) (\<lambda>_.
                writeElements elementValues)))
          | ArraySingleStringRecord arrayObjectId len elementValues \<Rightarrow>
              bind (wr (writeByte (RecordType_value ArraySingleString))) (\<lambda>_.
              bind (wr (writeInt32 arrayObjectId)) (\<lambda>_.
              bind (wr (writeInt32 len)) (\<lambda>_.
                writeElements elementValues)))
          | BinaryObjectStringRecord stringObjectId v \<Rightarrow>
              bind (wr (writeByte (RecordType_value BinaryObjectString))) (\<lambda>_.
              bind (wr (writeInt32 stringObjectId)) (\<lambda>_.
                wr (writeLengthPrefixedString v)))
          | BinaryLibraryRecord libraryId libraryName \<Rightarrow>
              bind (wr (writeByte (RecordType_value BinaryLibrary))) (\<lambda>_.
              bind (wr (writeInt32 libraryId)) (\<lambda>_.
                wr (writeLengthPrefixedString libraryName)))
          | MemberPrimitiveTypedRecord primitiveTypeEnum v \<Rightarrow>
              bind (wr (writeByte (RecordType_value MemberPrimitiveTyped))) (\<lambda>_.
              bind (wr (writeByte primitiveTypeEnum)) (\<lambda>_.
                writePrimitiveValue v primitiveTypeEnum))
          | MemberReferenceRecord idRef \<Rightarrow>
              bind (wr (writeByte (RecordType_value MemberReference))) (\<lambda>_.
                wr (writeInt32 idRef))
          | ObjectNullRecord \<Rightarrow> wr (writeByte (RecordType_value ObjectNull))
          | ObjectNullMultipleRecord nullCount \<Rightarrow>
              bind (wr (writeByte (RecordType_value ObjectNullMultiple))) (\<lambda>_.
                wr (writeInt32 nullCount))
          | ObjectNullMultiple256Record nullCount \<Rightarrow>
              bind (wr (writeByte (RecordType_value ObjectNullMultiple256))) (\<lambda>_.
                wr (writeByte nullCount))
          | SerializationHeader _ _ _ _ \<Rightarrow> unit ()
          | MessageEndRecord \<Rightarrow> unit ())
          (\<lambda>_. markWritten record) st)"
| "writeObjectValue v st =
     (case v of
        None \<Rightarrow> wr (writeByte (RecordType_value ObjectNull)) st
      | Some (Prim PNull) \<Rightarrow> wr (writeByte (RecordType_value ObjectNull)) st
      | Some (Rec record) \<Rightarrow> encodeRecord record st
      | Some (Prim (PBoolean b)) \<Rightarrow> wr (writeBoolean b) st
      | Some (Prim (PNumber _)) \<Rightarrow> Throw CannotEncodeBareNumber
      | Some (Prim (PString _)) \<Rightarrow> Throw CannotEncodeBareString
      | Some (Prim (PBigint _)) \<Rightarrow> Return ((), st))"
| "writeMembers mv [] st = Return ((), st)"
| "writeMembers mv (memberName # rest) st =
     bind (writeObjectValue (map_of mv memberName)) (\<lambda>_. writeMembers mv rest) st"
| "writeElements [] st = Return ((), st)"
| "writeElements (element # rest) st =
     bind (writeObjectValue (Some element)) (\<lambda>_. writeElements rest) st"
  by pat_completeness auto

termination
proof -
  have size_map_of: "size v < size_list (size_prod (\<lambda>_. 0) size) mv"
    if "map_of mv n = Some v" for mv :: "(string \<times> ObjectValue) list" and n v
    using that by (induction mv) (auto split: if_splits)
  show ?thesis
    by (relation "inv_image (less_than <*lex*> less_than) (\<lambda>x. case x of
         Inl (Inl (r, st)) \<Rightarrow> (size r, 0::nat)
       | Inl (Inr (v, st)) \<Rightarrow> ((case v of None \<Rightarrow> 0 | Some v' \<Rightarrow> size v'), 0)
       | Inr (Inl (mv, names, st)) \<Rightarrow>
           (size_list (size_prod (\<lambda>_. 0) size) mv, Suc (length names))
       | Inr (Inr (es, st)) \<Rightarrow> (size_list size es, Suc (length es)))")
      (auto dest: size_map_of split: option.splits)
qed

declare encodeRecord.simps [simp del]
declare writeObjectValue.simps [simp del]

text \<open>
  \<open>encode\<close> on a new encoder, as every caller has it; \<open>rootId\<close> is \<open>None\<close> when the
  argument is left out.
\<close>

definition encode_run :: "NrbfRecord \<Rightarrow> int option \<Rightarrow> unit encoder" where
  "encode_run root rootId st =
     (let actualRootId =
        (case rootId of
           Some i \<Rightarrow> i
         | None \<Rightarrow> (case objectId root of Some i \<Rightarrow> i | None \<Rightarrow> 1))
      in bind (wr (writeByte (RecordType_value SerializedStreamHeader))) (\<lambda>_.
         bind (wr (writeInt32 actualRootId)) (\<lambda>_.
         bind (wr (writeInt32 (- 1))) (\<lambda>_.
         bind (wr (writeInt32 1)) (\<lambda>_.
         bind (wr (writeInt32 0)) (\<lambda>_.
         bind (encodeRecord root) (\<lambda>_.
           wr (writeByte (RecordType_value MessageEnd)))))))) st)"

definition encode :: "NrbfRecord \<Rightarrow> int option \<Rightarrow> (byte list) outcome" where
  "encode root rootId =
     (case encode_run root rootId newNrbfEncoder of
        Return (_, st) \<Rightarrow> Return (toBuffer (writer st))
      | Throw e \<Rightarrow> Throw e
      | OutOfFuel \<Rightarrow> OutOfFuel
      | OutsideModel \<Rightarrow> OutsideModel)"

section \<open>NrbfUtils\<close>

definition startsWithPayloadHeader :: "byte list \<Rightarrow> bool" where
  "startsWithPayloadHeader buffer =
     (if length buffer < 17 then False
      else if uint (buffer ! 0) \<noteq> RecordType_value SerializedStreamHeader then False
      else list_all (\<lambda>i. uint (buffer ! (9 + i)) = [1, 0, 0, 0, 0, 0, 0, 0] ! i) [0 ..< 8])"

definition parseGuid :: "NrbfRecord \<Rightarrow> string outcome" where
  "parseGuid guidRecord = reconstructGuid guidRecord"

text \<open>\<open>path.split('.')\<close>.\<close>

fun split_dot :: "string \<Rightarrow> string list" where
  "split_dot [] = [[]]"
| "split_dot (c # cs) =
     (if c = CHR ''.'' then [] # split_dot cs
      else (case split_dot cs of p # ps \<Rightarrow> (c # p) # ps | [] \<Rightarrow> [[c]]))"

text \<open>
  \<open>Number(part)\<close> is used as an array index: what matters of it is whether it is \<open>NaN\<close>,
  a number that is an index, or any other number. The conversion of a string to a number
  is the host's; \<open>getNestedValue\<close> takes it as the argument \<open>toNumber\<close>.
\<close>

datatype array_index = NaN | Index nat | NotAnIndex

text \<open>A conversion for lookups that index no array: every part is \<open>NaN\<close>.\<close>

definition noIndex :: "string \<Rightarrow> array_index" where
  "noIndex part = NaN"

fun getArray :: "NrbfRecord \<Rightarrow> (ObjectValue list) option" where
  "getArray (BinaryArrayRecord _ _ _ _ _ _ _ elementValues) = Some elementValues"
| "getArray (ArraySinglePrimitiveRecord _ _ _ elementValues) = Some (map Prim elementValues)"
| "getArray (ArraySingleObjectRecord _ _ elementValues) = Some elementValues"
| "getArray (ArraySingleStringRecord _ _ elementValues) = Some elementValues"
| "getArray _ = None"

text \<open>
  One round of the loop over the parts; \<open>None\<close> is \<open>return undefined\<close>. The value
  \<open>current\<close> is never \<open>undefined\<close> at the start of a round.
\<close>

definition getNestedValue_step ::
    "(string \<Rightarrow> array_index) \<Rightarrow> NrbfDecoder option \<Rightarrow> ObjectValue \<Rightarrow> string
       \<Rightarrow> ObjectValue option"
where
  "getNestedValue_step toNumber decoder current part =
     (case (case current of
              Rec (MemberReferenceRecord idRef) \<Rightarrow>
                (case decoder of
                   Some d \<Rightarrow> map_option Rec (getRecord d idRef)
                 | None \<Rightarrow> None)
            | _ \<Rightarrow> Some current) of
        None \<Rightarrow> None
      | Some current1 \<Rightarrow>
          (case (case current1 of
                   Rec (ClassRecord classInfo mti lib rt mv) \<Rightarrow>
                     getValue (ClassRecord classInfo mti lib rt mv) part
                 | Rec r \<Rightarrow>
                     (case getArray r of
                        None \<Rightarrow> None
                      | Some arr \<Rightarrow>
                          (case toNumber part of
                             NaN \<Rightarrow> None
                           | Index i \<Rightarrow> nth_opt arr i
                           | NotAnIndex \<Rightarrow> None))
                 | Prim _ \<Rightarrow> None) of
             None \<Rightarrow> None
           | Some current2 \<Rightarrow> if current2 = Prim PNull then None else Some current2))"

fun getNestedValue_loop ::
    "(string \<Rightarrow> array_index) \<Rightarrow> NrbfDecoder option \<Rightarrow> ObjectValue \<Rightarrow> string list
       \<Rightarrow> ObjectValue option"
where
  "getNestedValue_loop toNumber decoder current [] = Some current"
| "getNestedValue_loop toNumber decoder current (part # rest) =
     (case getNestedValue_step toNumber decoder current part of
        None \<Rightarrow> None
      | Some current' \<Rightarrow> getNestedValue_loop toNumber decoder current' rest)"

text \<open>The result \<open>None\<close> is \<open>undefined\<close>; the function has no \<open>throw\<close>.\<close>

definition getNestedValue ::
    "(string \<Rightarrow> array_index) \<Rightarrow> NrbfRecord \<Rightarrow> string \<Rightarrow> NrbfDecoder option
       \<Rightarrow> ObjectValue option"
where
  "getNestedValue toNumber record path decoder =
     (case getNestedValue_loop toNumber decoder (Rec record) (split_dot path) of
        None \<Rightarrow> None
      | Some current \<Rightarrow>
          (case (current, decoder) of
             (Rec (MemberReferenceRecord idRef), Some d) \<Rightarrow> map_option Rec (getRecord d idRef)
           | _ \<Rightarrow> Some current))"

section \<open>Notions used in the statements\<close>

text \<open>
  A writer operation appends when the chunks it leaves start with the chunks it found.
  Two encoder states are related by \<open>enc_rel\<close> when the second has the chunks of the
  first as a prefix, its emitted set contains that of the first, and holds 0 only if
  that of the first did. An encoder operation preserves when every run of it that
  returns relates the state before to the state after.
\<close>

definition appends :: "'a writer \<Rightarrow> bool" where
  "appends f \<longleftrightarrow> (\<forall>w a w'. f w = Return (a, w') \<longrightarrow> (\<exists>cs. chunks w' = chunks w @ cs))"

definition enc_rel :: "NrbfEncoder \<Rightarrow> NrbfEncoder \<Rightarrow> bool" where
  "enc_rel st st' \<longleftrightarrow>
     (\<exists>cs. chunks (writer st') = chunks (writer st) @ cs)
     \<and> writtenRecords st \<subseteq> writtenRecords st'
     \<and> (0 \<in> writtenRecords st' \<longrightarrow> 0 \<in> writtenRecords st)"

definition preserves :: "'a encoder \<Rightarrow> bool" where
  "preserves m \<longleftrightarrow> (\<forall>st a st'. m st = Return (a, st') \<longrightarrow> enc_rel st st')"

text \<open>
  One computation refines another when the second has the outcome of the first wherever
  the first does not run out of fuel.
\<close>

definition refines :: "('s \<Rightarrow> 'a outcome) \<Rightarrow> ('s \<Rightarrow> 'a outcome) \<Rightarrow> bool" where
  "refines f g \<longleftrightarrow> (\<forall>s. f s \<noteq> OutOfFuel \<longrightarrow> g s = f s)"

text \<open>
  A well-formed GUID string: 36 characters in the shape
  \<open>xxxxxxxx-xxxx-xxxx-xxxx-xxxxxxxxxxxx\<close>, every \<open>x\<close> a hexadecimal digit of either case;
  \<open>toLowerCase\<close> on such strings.
\<close>

definition isHexDigit :: "char \<Rightarrow> bool" where
  "isHexDigit c = (hexValue c \<noteq> None)"

definition toLowerCaseChar :: "char \<Rightarrow> char" where
  "toLowerCaseChar c =
     (if 65 \<le> (of_char c :: int) \<and> (of_char c :: int) \<le> 90 then char_of ((of_char c :: int) + 32) else c)"

definition toLowerCase :: "string \<Rightarrow> string" where
  "toLowerCase s = map toLowerCaseChar s"

definition guidShape :: string where
  "guidShape = ''xxxxxxxx-xxxx-xxxx-xxxx-xxxxxxxxxxxx''"

definition wellFormedGuid :: "string \<Rightarrow> bool" where
  "wellFormedGuid s \<longleftrightarrow>
     length s = 36
     \<and> list_all (\<lambda>(p, c). if p = CHR ''-'' then c = CHR ''-'' else isHexDigit c) (zip guidShape s)"

section \<open>Theorems\<close>

text \<open>
  C8. For a class record \<open>r\<close> and a name that is not among its member names,
  \<open>setValue\<close> throws the member-does-not-exist error and leaves the record, and so its
  member values, as it was; for a name among its member names, \<open>setValue\<close> succeeds
  whatever the value and the member type information are, and \<open>getValue\<close> of that name
  on the record after the call is the value.
\<close>

theorem C8_setValue:
  fixes classInfo mti lib rt mv name v
  defines "r \<equiv> ClassRecord classInfo mti lib rt mv"
  shows "(name \<notin> set (ci_memberNames classInfo) \<longrightarrow>
            setValue r name v = (Throw (MemberDoesNotExist name (ci_name classInfo)), r))
       \<and> (name \<in> set (ci_memberNames classInfo) \<longrightarrow>
            fst (setValue r name v) = Return ()
          \<and> getValue (snd (setValue r name v)) name = Some v)"
  by (simp add: r_def update_conv')

theorem C8_setValue_witness:
  "setValue (ClassRecord \<lparr>ci_objectId = 1, ci_name = ''C'', ci_memberCount = 1,
       ci_memberNames = [''x'']\<rparr> None None SystemClassWithMembers []) ''y''
       (Prim (PBoolean True))
     = (Throw (MemberDoesNotExist ''y'' ''C''),
        ClassRecord \<lparr>ci_objectId = 1, ci_name = ''C'', ci_memberCount = 1,
          ci_memberNames = [''x'']\<rparr> None None SystemClassWithMembers [])
   \<and> getValue (snd (setValue (ClassRecord \<lparr>ci_objectId = 1, ci_name = ''C'',
       ci_memberCount = 1, ci_memberNames = [''x'']\<rparr> None None SystemClassWithMembers [])
       ''x'' (Prim (PBoolean True)))) ''x'' = Some (Prim (PBoolean True))"
  using C8_setValue [of "''y''" "\<lparr>ci_objectId = 1, ci_name = ''C'', ci_memberCount = 1,
       ci_memberNames = [''x'']\<rparr>" None None SystemClassWithMembers "[]" "Prim (PBoolean True)"]
    C8_setValue [of "''x''" "\<lparr>ci_objectId = 1, ci_name = ''C'', ci_memberCount = 1,
       ci_memberNames = [''x'']\<rparr>" None None SystemClassWithMembers "[]" "Prim (PBoolean True)"]
  by simp

subsection \<open>The variable-length integer\<close>

lemma ToInt32_range: "- (2^31) \<le> ToInt32 x \<and> ToInt32 x < 2^31"
  unfolding ToInt32_def using signed_take_bit_int_less_exp [of 31 x] signed_take_bit_int_greater_eq_minus_exp [of 31 x] by simp

lemma ToInt32_id: "- (2^31) \<le> x \<Longrightarrow> x < 2^31 \<Longrightarrow> ToInt32 x = x"
  unfolding ToInt32_def by (simp add: signed_take_bit_int_eq_self)

lemma js_sar_7: "js_sar v 7 = ToInt32 v div 128"
  by (simp add: js_sar_def drop_bit_eq_div)

lemma and_127: "(x::int) AND 127 = x mod 128"
proof -
  have "x AND mask 7 = take_bit 7 x" by (rule take_bit_eq_mask [symmetric])
  moreover have "mask 7 = (127::int)" by (simp add: mask_eq_exp_minus_1)
  ultimately show ?thesis by (simp add: take_bit_eq_mod)
qed

lemma and_128_0: "((x::int) AND 128 = 0) \<longleftrightarrow> even (x div 128)"
  using and_exp_eq_0_iff_not_bit [of x 7] by (simp add: bit_iff_odd)

lemma or_disj: "0 \<le> a \<Longrightarrow> a < 2 ^ s \<Longrightarrow> (a::int) OR (m * 2 ^ s) = a + m * 2 ^ s"
proof -
  assume "0 \<le> a" "a < 2 ^ s"
  then have t: "take_bit s a = a" by (simp add: take_bit_int_eq_self)
  have "take_bit s a OR push_bit s m = take_bit s a + push_bit s m"
    using concat_bit_def [of s a m] concat_bit_eq [of s a m] by simp
  then show ?thesis by (simp add: t push_bit_eq_mult)
qed

lemma js_and_127: "0 \<le> v \<Longrightarrow> v < 2^31 \<Longrightarrow> js_and v 0x7F = v mod 128"
  by (simp add: js_and_def ToInt32_id and_127)

lemma js_or_128: "0 \<le> m \<Longrightarrow> m < 128 \<Longrightarrow> js_or m 0x80 = m + 128"
  using or_disj [of m 7 1] by (simp add: js_or_def ToInt32_id)

lemma uint_byte_of_int: "0 \<le> x \<Longrightarrow> x < 256 \<Longrightarrow> uint (word_of_int x :: 8 word) = x"
  by (simp add: uint_word_of_int take_bit_int_eq_self)

lemma js_shl_mult: "0 \<le> m \<Longrightarrow> m * 2 ^ s < 2^31 \<Longrightarrow> s < 32 \<Longrightarrow> m < 2^31 \<Longrightarrow> js_shl m (int s) = m * 2 ^ s"
proof -
  assume a: "0 \<le> m" "m * 2 ^ s < 2^31" "s < 32" "m < 2^31"
  have "0 \<le> m * 2 ^ s" using a(1) by simp
  then have "ToInt32 (m * 2 ^ s) = m * 2 ^ s" using a(2) by (intro ToInt32_id) linarith+
  then show ?thesis using a by (simp add: js_shl_def ToInt32_id push_bit_eq_mult)
qed

lemma js_or_add: "0 \<le> a \<Longrightarrow> a < 2 ^ s \<Longrightarrow> 0 \<le> m \<Longrightarrow> m * 2 ^ s < 2^31 \<Longrightarrow> s < 31 \<Longrightarrow> js_or a (m * 2 ^ s) = a + m * 2 ^ s"
proof -
  assume a: "0 \<le> a" "a < 2 ^ s" "0 \<le> m" "m * 2 ^ s < 2^31" "s < 31"
  have "(2::int) ^ s < 2 ^ 31" using power_strict_increasing [of s 31 "2::int"] a(5) by simp
  with a have "ToInt32 a = a" by (intro ToInt32_id) linarith+
  moreover have "0 \<le> m * 2 ^ s" using a(3) by simp
  then have "ToInt32 (m * 2 ^ s) = m * 2 ^ s" using a(4) by (intro ToInt32_id) linarith+
  ultimately show ?thesis using a by (simp add: js_or_def or_disj)
qed

lemma readByte_at:
  "readByte \<lparr>view = pre @ b # rest, offset = length pre\<rparr>
     = Return (uint b, \<lparr>view = pre @ b # rest, offset = Suc (length pre)\<rparr>)"
  by (simp add: readByte_def bind_def getBytes_def unit_def)

lemma toBuffer_pushByte: "toBuffer (pushByte x w) = toBuffer w @ [word_of_int x]"
  by (simp add: toBuffer_def pushByte_def push_def)

lemma varint_step:
  assumes b: "0 \<le> b" "b < 256" and acc: "0 \<le> acc" "acc < 2 ^ (7 * j)" and j: "j \<le> 4"
    and sm: "(b mod 128) * 2 ^ (7 * j) < 2 ^ 31"
  shows "readVariableLengthInt_loop acc (int (7 * j))
           \<lparr>view = pre @ word_of_int b # rest, offset = length pre\<rparr>
       = (if even (b div 128)
          then Return (acc + (b mod 128) * 2 ^ (7 * j),
                 \<lparr>view = pre @ word_of_int b # rest, offset = Suc (length pre)\<rparr>)
          else readVariableLengthInt_loop (acc + (b mod 128) * 2 ^ (7 * j)) (int (7 * j) + 7)
                 \<lparr>view = pre @ word_of_int b # rest, offset = Suc (length pre)\<rparr>)"
proof -
  have ub: "uint (word_of_int b :: byte) = b" using b by (rule uint_byte_of_int)
  have tb: "ToInt32 b = b" using b by (intro ToInt32_id) simp_all
  have m1: "js_and b 0x7F = b mod 128" using b by (intro js_and_127) simp_all
  have m0: "0 \<le> b mod 128" "b mod 128 < 128" by simp_all
  have s32: "7 * j < 31" using j by simp
  have sh: "js_shl (b mod 128) (int (7 * j)) = (b mod 128) * 2 ^ (7 * j)"
    using m0 sm s32 by (intro js_shl_mult) simp_all
  have orr: "js_or acc ((b mod 128) * 2 ^ (7 * j)) = acc + (b mod 128) * 2 ^ (7 * j)"
    using acc m0 sm s32 by (intro js_or_add) simp_all
  have hi: "(js_and b 0x80 = 0) \<longleftrightarrow> even (b div 128)"
    by (simp add: js_and_def tb ToInt32_id and_128_0)
  have lt: "int (7 * j) < 35" using j by simp
  show ?thesis
    apply (subst readVariableLengthInt_loop.simps)
    apply (simp only: lt if_True bind_def readByte_at ub outcome.case prod.case Let_def m1 sh orr hi)
    apply (simp add: unit_def)
    done
qed

lemma varint_roundtrip_gen:
  "0 \<le> v \<Longrightarrow> v < 2 ^ (31 - 7 * j) \<Longrightarrow> j \<le> 4 \<Longrightarrow> 0 \<le> acc \<Longrightarrow> acc < 2 ^ (7 * j) \<Longrightarrow>
   \<exists>bs. toBuffer (writeVariableLengthInt_loop v w) = toBuffer w @ bs \<and> 1 \<le> length bs
      \<and> length bs + j \<le> 5
      \<and> (\<forall>pre post. readVariableLengthInt_loop acc (int (7 * j))
             \<lparr>view = pre @ bs @ post, offset = length pre\<rparr>
           = Return (acc + v * 2 ^ (7 * j),
               \<lparr>view = pre @ bs @ post, offset = length pre + length bs\<rparr>))"
proof (induction v w arbitrary: j acc rule: writeVariableLengthInt_loop.induct)
  case (1 v w)
  have v31: "v < 2 ^ 31"
    using "1.prems"(2) power_increasing [of "31 - 7 * j" 31 "2::int"] by simp
  have tv: "ToInt32 v = v" using "1.prems"(1) v31 by (intro ToInt32_id) simp_all
  have m: "js_and v 0x7F = v mod 128" using "1.prems"(1) v31 by (rule js_and_127)
  have v': "js_sar v 7 = v div 128" by (simp add: js_sar_7 tv)
  have m0: "0 \<le> v mod 128" "v mod 128 < 128" by simp_all
  have o: "js_or (v mod 128) 0x80 = v mod 128 + 128" using m0 by (rule js_or_128)
  show ?case
  proof (cases "0 < v div 128")
    case False
    with "1.prems"(1) have small: "v < 128" by simp
    then have vm: "v mod 128 = v" "v div 128 = 0" using "1.prems"(1) by simp_all
    have w: "writeVariableLengthInt_loop v w = pushByte v w"
      by (subst writeVariableLengthInt_loop.simps) (simp add: m v' vm Let_def)
    have sm: "(v mod 128) * 2 ^ (7 * j) < 2 ^ 31"
    proof -
      have "v * 2 ^ (7 * j) < 2 ^ (31 - 7 * j) * 2 ^ (7 * j)"
        using "1.prems"(2) by simp
      also have "\<dots> = (2::int) ^ 31" using "1.prems"(3) by (simp add: power_add [symmetric])
      finally show ?thesis by (simp add: vm)
    qed
    have rd: "\<And>pre post. readVariableLengthInt_loop acc (int (7 * j))
             \<lparr>view = pre @ [word_of_int v] @ post, offset = length pre\<rparr>
           = Return (acc + v * 2 ^ (7 * j),
               \<lparr>view = pre @ [word_of_int v] @ post, offset = length pre + 1\<rparr>)"
      using varint_step [of v acc j pre post for pre post] "1.prems" small sm
      by (simp add: vm)
    show ?thesis
      apply (rule exI [of _ "[word_of_int v]"])
      using "1.prems"(3) rd by (simp add: w toBuffer_pushByte)
  next
    case True
    then have big: "128 \<le> v" by simp
    have j3: "j \<le> 3"
    proof (rule ccontr)
      assume "\<not> j \<le> 3"
      with "1.prems"(3) have "j = 4" by simp
      with "1.prems"(2) big show False by simp
    qed
    define acc' where "acc' = acc + (v mod 128) * 2 ^ (7 * j)"
    have w: "writeVariableLengthInt_loop v w
           = writeVariableLengthInt_loop (v div 128) (pushByte (v mod 128 + 128) w)"
      by (subst writeVariableLengthInt_loop.simps) (simp add: m v' o True Let_def)
    have p1: "0 \<le> v div 128" using "1.prems"(1) by simp
    have p2: "v div 128 < 2 ^ (31 - 7 * Suc j)"
    proof -
      have e: "31 - 7 * j = (31 - 7 * Suc j) + 7" using j3 by simp
      have "(2::int) ^ (31 - 7 * j) = 2 ^ ((31 - 7 * Suc j) + 7)"
        by (subst e) (rule refl)
      also have "\<dots> = 2 ^ (31 - 7 * Suc j) * 128"
        by (simp only: power_add) simp
      finally have "v < 2 ^ (31 - 7 * Suc j) * 128" using "1.prems"(2) by simp
      then show ?thesis by arith
    qed
    have p4: "0 \<le> acc'" using "1.prems"(4) m0 by (simp add: acc'_def)
    have p5: "acc' < 2 ^ (7 * Suc j)"
    proof -
      have "(v mod 128) * 2 ^ (7 * j) \<le> 127 * 2 ^ (7 * j)"
        using m0 by (intro mult_right_mono) simp_all
      then have "acc' < 128 * 2 ^ (7 * j)" unfolding acc'_def using "1.prems"(5) by linarith
      then show ?thesis by (simp add: power_add)
    qed
    have "\<exists>bs. toBuffer (writeVariableLengthInt_loop (v div 128) (pushByte (v mod 128 + 128) w))
          = toBuffer (pushByte (v mod 128 + 128) w) @ bs
        \<and> 1 \<le> length bs \<and> length bs + Suc j \<le> 5
        \<and> (\<forall>pre post. readVariableLengthInt_loop acc' (int (7 * Suc j))
             \<lparr>view = pre @ bs @ post, offset = length pre\<rparr>
           = Return (acc' + (v div 128) * 2 ^ (7 * Suc j),
               \<lparr>view = pre @ bs @ post, offset = length pre + length bs\<rparr>))"
      using "1.IH" [OF refl refl, of "Suc j" acc'] True p1 p2 j3 p4 p5
      by (simp only: m v' o)
    then obtain bs where bs: "toBuffer (writeVariableLengthInt_loop (v div 128) (pushByte (v mod 128 + 128) w))
          = toBuffer (pushByte (v mod 128 + 128) w) @ bs"
        "1 \<le> length bs" "length bs + Suc j \<le> 5"
        "\<And>pre post. readVariableLengthInt_loop acc' (int (7 * Suc j))
             \<lparr>view = pre @ bs @ post, offset = length pre\<rparr>
           = Return (acc' + (v div 128) * 2 ^ (7 * Suc j),
               \<lparr>view = pre @ bs @ post, offset = length pre + length bs\<rparr>)"
      by blast
    define b where "b = v mod 128 + 128"
    have bd: "b div 128 = 1" "b mod 128 = v mod 128" "0 \<le> b" "b < 256"
      using m0 by (simp_all add: b_def)
    define b0 :: byte where "b0 = word_of_int b"
    have val: "acc' + (v div 128) * 2 ^ (7 * Suc j) = acc + v * 2 ^ (7 * j)"
    proof -
      define P :: int where "P = 2 ^ (7 * j)"
      have e: "v mod 128 + 128 * (v div 128) = v" by simp
      have "(2::int) ^ (7 * Suc j) = 128 * P" by (simp add: P_def power_add)
      then have "acc' + (v div 128) * 2 ^ (7 * Suc j)
          = acc + ((v mod 128) * P + (128 * (v div 128)) * P)"
        by (simp add: acc'_def P_def)
      also have "\<dots> = acc + (v mod 128 + 128 * (v div 128)) * P"
        by (simp only: distrib_right)
      also have "\<dots> = acc + v * P" by (simp only: e)
      finally show ?thesis by (simp only: P_def)
    qed
    have sm: "(b mod 128) * 2 ^ (7 * j) < 2 ^ 31"
    proof -
      have "(v mod 128) * 2 ^ (7 * j) \<le> 127 * 2 ^ (7 * j)"
        using m0 by (intro mult_right_mono) simp_all
      moreover have "(2::int) ^ (7 * j) \<le> 2 ^ 21"
        using j3 by (intro power_increasing) simp_all
      ultimately have "(v mod 128) * 2 ^ (7 * j) \<le> 127 * 2 ^ 21"
        by (meson mult_left_mono order_trans zero_le_numeral)
      then show ?thesis by (simp add: bd(2))
    qed
    have rd: "readVariableLengthInt_loop acc (int (7 * j))
             \<lparr>view = pre @ (b0 # bs) @ post, offset = length pre\<rparr>
           = Return (acc + v * 2 ^ (7 * j),
               \<lparr>view = pre @ (b0 # bs) @ post, offset = length pre + length (b0 # bs)\<rparr>)"
      for pre post
    proof -
      have "readVariableLengthInt_loop acc (int (7 * j))
             \<lparr>view = pre @ b0 # (bs @ post), offset = length pre\<rparr>
          = readVariableLengthInt_loop acc' (int (7 * j) + 7)
             \<lparr>view = pre @ b0 # (bs @ post), offset = Suc (length pre)\<rparr>"
        unfolding b0_def acc'_def
        using varint_step [OF bd(3,4) "1.prems"(4,5,3) sm, of pre "bs @ post"]
        by (simp only: bd) simp
      also have "\<dots> = readVariableLengthInt_loop acc' (int (7 * Suc j))
             \<lparr>view = (pre @ [b0]) @ bs @ post, offset = length (pre @ [b0])\<rparr>"
        by (simp add: algebra_simps)
      also have "\<dots> = Return (acc' + (v div 128) * 2 ^ (7 * Suc j),
               \<lparr>view = (pre @ [b0]) @ bs @ post, offset = length (pre @ [b0]) + length bs\<rparr>)"
        by (rule bs(4))
      finally show ?thesis using val by simp
    qed
    show ?thesis
      apply (rule exI [of _ "b0 # bs"])
      using bs(2,3) rd by (simp add: w bs(1) toBuffer_pushByte b0_def b_def)
  qed
qed

text \<open>
  C5. For every integer \<open>n\<close> with \<open>0 \<le> n \<le> 2^31 - 1\<close>, \<open>writeVariableLengthInt n\<close> on a
  new writer succeeds, \<open>readVariableLengthInt\<close> on a reader over the buffer it wrote
  returns exactly \<open>n\<close> and has then consumed the whole buffer, and the buffer has
  between 1 and 5 bytes.
\<close>

theorem C5_varint_roundtrip:
  assumes "0 \<le> n" and "n \<le> 2 ^ 31 - 1"
  shows "\<exists>w. writeVariableLengthInt n newBinaryWriter = Return ((), w)
           \<and> readVariableLengthInt (newBinaryReader (toBuffer w))
               = Return (n, \<lparr>view = toBuffer w, offset = length (toBuffer w)\<rparr>)
           \<and> 1 \<le> length (toBuffer w) \<and> length (toBuffer w) \<le> 5"
proof -
  from assms have "n < 2 ^ (31 - 7 * 0)" by simp
  from varint_roundtrip_gen [OF assms(1) this, of 0 newBinaryWriter]
  obtain bs where bs: "toBuffer (writeVariableLengthInt_loop n newBinaryWriter)
        = toBuffer newBinaryWriter @ bs" "1 \<le> length bs" "length bs + 0 \<le> 5"
      "\<And>pre post. readVariableLengthInt_loop 0 (int (7 * 0))
           \<lparr>view = pre @ bs @ post, offset = length pre\<rparr>
         = Return (0 + n * 2 ^ (7 * 0),
             \<lparr>view = pre @ bs @ post, offset = length pre + length bs\<rparr>)"
    by auto
  have tb: "toBuffer (writeVariableLengthInt_loop n newBinaryWriter) = bs"
    using bs(1) by (simp add: toBuffer_def newBinaryWriter_def)
  from bs(4) [of "[]" "[]"] have "readVariableLengthInt (newBinaryReader bs)
      = Return (n, \<lparr>view = bs, offset = length bs\<rparr>)"
    by (simp add: readVariableLengthInt_def newBinaryReader_def)
  with bs(2,3) tb show ?thesis
    by (simp add: writeVariableLengthInt_def)
qed

theorem C5_varint_roundtrip_witness:
  "\<exists>w. writeVariableLengthInt 300 newBinaryWriter = Return ((), w)
      \<and> readVariableLengthInt (newBinaryReader (toBuffer w))
          = Return (300, \<lparr>view = toBuffer w, offset = length (toBuffer w)\<rparr>)
      \<and> 1 \<le> length (toBuffer w) \<and> length (toBuffer w) \<le> 5"
  using C5_varint_roundtrip [of 300] by simp


subsection \<open>The encoder only appends, and its emitted set only grows\<close>

lemma enc_rel_refl: "enc_rel st st"
  by (simp add: enc_rel_def)

lemma enc_rel_trans: "enc_rel a b \<Longrightarrow> enc_rel b c \<Longrightarrow> enc_rel a c"
  by (auto simp: enc_rel_def)

lemma bind_Return:
  "bind m f st = Return (b, st'') \<longleftrightarrow> (\<exists>a st'. m st = Return (a, st') \<and> f a st' = Return (b, st''))"
  by (auto simp: bind_def split: outcome.splits)

lemma preserves_bind: "preserves m \<Longrightarrow> (\<And>x. preserves (f x)) \<Longrightarrow> preserves (bind m f)"
  unfolding preserves_def bind_Return by (blast intro: enc_rel_trans)

lemma preserves_unit: "preserves (unit x)"
  by (simp add: preserves_def unit_def enc_rel_refl)

lemma preserves_throw: "preserves (throw e)"
  by (simp add: preserves_def throw_def)

lemma preserves_const: "preserves (\<lambda>_. OutsideModel)" "preserves (\<lambda>_. Throw e)"
  by (simp_all add: preserves_def)

lemma preserves_wr: "appends f \<Longrightarrow> preserves (wr f)"
  by (auto simp: appends_def preserves_def wr_def enc_rel_def split: outcome.splits)

lemma preserves_forEachDo: "(\<And>b. preserves (m b)) \<Longrightarrow> preserves (forEachDo bs m)"
proof (induction bs)
  case Nil
  have "forEachDo [] m = unit ()" by (rule ext) simp
  then show ?case by (simp add: preserves_unit)
next
  case (Cons b bs)
  have "forEachDo (b # bs) m = bind (m b) (\<lambda>_. forEachDo bs m)" by (rule ext) simp
  then show ?case using Cons by (simp add: preserves_bind)
qed

lemma appends_push: "appends (\<lambda>w. Return ((), push c w))"
  by (simp add: appends_def push_def)

lemma appends_simple [simp]:
  "appends (writeByte v)" "appends (writeSByte v)" "appends (writeInt16 v)"
  "appends (writeUInt16 v)" "appends (writeInt32 v)" "appends (writeUInt32 v)"
  "appends (writeInt64 v)" "appends (writeUInt64 v)" "appends (writeSingle n)"
  "appends (writeDouble n)"
  by (auto simp: appends_def writeByte_def pushByte_def push_def writeSByte_def writeInt16_def
      writeUInt16_def writeInt32_def writeUInt32_def writeInt64_def writeUInt64_def
      writeSingle_def writeDouble_def split: number.splits if_splits)

lemma appends_more [simp]:
  "appends (writeBoolean b)" "appends (writeChar s)" "appends (writeDateTime v)"
  "appends (writeTimeSpan v)"
proof -
  have "writeBoolean b = writeByte (if b then 1 else 0)" by (rule ext) (simp add: writeBoolean_def)
  then show "appends (writeBoolean b)" by simp
  have "writeChar s = writeByte (case s of [] \<Rightarrow> 0 | c # _ \<Rightarrow> of_char c)"
    by (rule ext) (simp add: writeChar_def)
  then show "appends (writeChar s)" by simp
  have "writeDateTime v = writeUInt64 v" by (rule ext) (simp add: writeDateTime_def)
  then show "appends (writeDateTime v)" by simp
  have "writeTimeSpan v = writeInt64 v" by (rule ext) (simp add: writeTimeSpan_def)
  then show "appends (writeTimeSpan v)" by simp
qed

lemma varint_loop_appends: "\<exists>cs. chunks (writeVariableLengthInt_loop v w) = chunks w @ cs"
proof (induction v w rule: writeVariableLengthInt_loop.induct)
  case (1 v w)
  show ?case
  proof (cases "0 < js_sar v 7")
    case True
    from "1.IH" [OF refl refl True] obtain cs where
      "chunks (writeVariableLengthInt_loop (js_sar v 7) (pushByte (js_or (js_and v 0x7F) 0x80) w))
        = chunks (pushByte (js_or (js_and v 0x7F) 0x80) w) @ cs" by blast
    then show ?thesis
      by (subst writeVariableLengthInt_loop.simps) (simp add: True Let_def pushByte_def push_def)
  next
    case False
    then show ?thesis
      by (subst writeVariableLengthInt_loop.simps) (simp add: Let_def pushByte_def push_def)
  qed
qed

lemma appends_varint [simp]: "appends (writeVariableLengthInt v)"
  using varint_loop_appends by (auto simp: appends_def writeVariableLengthInt_def)

lemma appends_string [simp]: "appends (writeLengthPrefixedString s)"
proof (cases "utf8_encode s")
  case None
  then show ?thesis by (simp add: appends_def writeLengthPrefixedString_def)
next
  case (Some bytes)
  show ?thesis
    unfolding appends_def
  proof (intro allI impI)
    fix w a w'
    assume "writeLengthPrefixedString s w = Return (a, w')"
    then have w': "w' = push bytes (writeVariableLengthInt_loop (int (length bytes)) w)"
      by (simp add: writeLengthPrefixedString_def Some bind_def writeVariableLengthInt_def)
    obtain cs where "chunks (writeVariableLengthInt_loop (int (length bytes)) w) = chunks w @ cs"
      using varint_loop_appends by blast
    then have "chunks w' = chunks w @ (cs @ [bytes])" by (simp add: w' push_def)
    then show "\<exists>cs. chunks w' = chunks w @ cs" by blast
  qed
qed

lemma foldl_pushByte_appends: "\<exists>cs. chunks (foldl (\<lambda>w' i. pushByte (g i) w') w is) = chunks w @ cs"
proof (induction "is" arbitrary: w)
  case Nil
  show ?case by simp
next
  case (Cons i "is")
  obtain cs where "chunks (foldl (\<lambda>w' i. pushByte (g i) w') (pushByte (g i) w) is)
      = chunks (pushByte (g i) w) @ cs"
    using Cons [of "pushByte (g i) w"] by blast
  then have "chunks (foldl (\<lambda>w' i. pushByte (g i) w') w (i # is))
      = chunks w @ ([word_of_int (g i)] # cs)"
    by (simp add: pushByte_def push_def)
  then show ?case by blast
qed

lemma appends_decimal [simp]: "appends (writeDecimal s)"
  using foldl_pushByte_appends by (auto simp: appends_def writeDecimal_def)

lemma preserves_eta: "(\<And>st. m st = m' st) \<Longrightarrow> preserves m' \<Longrightarrow> preserves m"
  by (simp add: preserves_def)

lemmas preserves_intros = preserves_bind preserves_unit preserves_throw preserves_const
  preserves_wr preserves_forEachDo

lemma preserves_writeClassInfo: "preserves (writeClassInfo ci)"
  by (rule preserves_eta [OF writeClassInfo_def]) (intro preserves_intros appends_simple appends_string)

lemma preserves_writeAdditionalTypeInfo: "preserves (writeAdditionalTypeInfo info)"
  by (rule preserves_eta [OF writeAdditionalTypeInfo_def], cases info)
    (simp_all add: preserves_intros)

lemma preserves_writeMemberTypeInfo: "preserves (writeMemberTypeInfo m)"
  by (rule preserves_eta [OF writeMemberTypeInfo_def])
    (intro preserves_intros appends_simple preserves_writeAdditionalTypeInfo)

lemma preserves_if:
  "(c \<Longrightarrow> preserves a) \<Longrightarrow> (\<not> c \<Longrightarrow> preserves b) \<Longrightarrow> preserves (if c then a else b)"
  by simp

lemma preserves_writePrimitiveValue: "preserves (writePrimitiveValue v t)"
  apply (rule preserves_eta [OF writePrimitiveValue_def])
  apply (intro preserves_if preserves_unit)
  apply (cases v; simp add: preserves_wr preserves_const split: number.splits)+
  done

lemma preserves_markWritten: "preserves (markWritten r)"
  by (auto simp: preserves_def markWritten_def enc_rel_def truthyId_def
      split: option.splits if_splits)

lemma preserves_case_option:
  "preserves a \<Longrightarrow> (\<And>x. preserves (f x)) \<Longrightarrow> preserves (case v of None \<Rightarrow> a | Some x \<Rightarrow> f x)"
  by (cases v) simp_all

lemma preservesD: "preserves m \<Longrightarrow> \<forall>a st'. m st = Return (a, st') \<longrightarrow> enc_rel st st'"
  by (simp add: preserves_def)

lemmas encoder_intros = preserves_intros preserves_if preserves_case_option appends_simple
  appends_more appends_string appends_varint appends_decimal preserves_markWritten
  preserves_writeClassInfo preserves_writeAdditionalTypeInfo preserves_writeMemberTypeInfo
  preserves_writePrimitiveValue

lemma encoder_preserves_aux:
  "\<forall>a st'. encodeRecord r st = Return (a, st') \<longrightarrow> enc_rel st st'"
  "\<forall>a st'. writeObjectValue v st1 = Return (a, st') \<longrightarrow> enc_rel st1 st'"
  "\<forall>a st'. writeMembers mv names st2 = Return (a, st') \<longrightarrow> enc_rel st2 st'"
  "\<forall>a st'. writeElements es st3 = Return (a, st') \<longrightarrow> enc_rel st3 st'"
proof (induction r st and v st1 and mv names st2 and es st3
    rule: encodeRecord_writeObjectValue_writeMembers_writeElements.induct)
  case (1 rcd st)
  show ?case
  proof (cases "case truthyId rcd of None \<Rightarrow> False | Some i \<Rightarrow> i \<in> writtenRecords st")
    case True
    then show ?thesis by (subst encodeRecord.simps) (simp add: enc_rel_refl)
  next
    case False
    have start: "(\<forall>a st'. encodeRecord rcd st = Return (a, st') \<longrightarrow> enc_rel st st')"
      if "preserves (\<lambda>s. encodeRecord rcd s)" 
      using that by (simp add: preserves_def)
    show ?thesis
    proof (cases rcd)
      case rec: (ClassRecord ci mti lib rt mv)
      have ih: "preserves (writeMembers mv (ci_memberNames ci))"
        using "1.IH"(1) [OF False rec] by (simp add: preserves_def)
      show ?thesis
        apply (subst encodeRecord.simps)
        apply (simp only: False if_False)
        apply (rule preservesD)
        apply (simp only: rec NrbfRecord.case)
        apply (intro encoder_intros ih)
        done
    next
      case rec: (BinaryArrayRecord x1 x2 x3 x4 x5 x6 x7 es)
      have ih: "preserves (writeElements es)"
        using "1.IH"(2) [OF False rec] by (simp add: preserves_def)
      show ?thesis
        apply (subst encodeRecord.simps)
        apply (simp only: False if_False)
        apply (rule preservesD)
        apply (simp only: rec NrbfRecord.case)
        apply (intro encoder_intros ih)
        done
    next
      case rec: (ArraySingleObjectRecord x1 x2 es)
      have ih: "preserves (writeElements es)"
        using "1.IH"(3) [OF False rec] by (simp add: preserves_def)
      show ?thesis
        apply (subst encodeRecord.simps)
        apply (simp only: False if_False)
        apply (rule preservesD)
        apply (simp only: rec NrbfRecord.case)
        apply (intro encoder_intros ih)
        done
    next
      case rec: (ArraySingleStringRecord x1 x2 es)
      have ih: "preserves (writeElements es)"
        using "1.IH"(4) [OF False rec] by (simp add: preserves_def)
      show ?thesis
        apply (subst encodeRecord.simps)
        apply (simp only: False if_False)
        apply (rule preservesD)
        apply (simp only: rec NrbfRecord.case)
        apply (intro encoder_intros ih)
        done
    qed (insert False, hypsubst, subst encodeRecord.simps, simp only: if_False NrbfRecord.case,
         rule preservesD, intro encoder_intros)+
  qed
next
  case (2 v st)
  have w: "\<forall>a st'. wr (writeByte x) st = Return (a, st') \<longrightarrow> enc_rel st st'" for x
    by (rule preservesD) (intro encoder_intros)
  have wb: "\<forall>a st'. wr (writeBoolean x) st = Return (a, st') \<longrightarrow> enc_rel st st'" for x
    by (rule preservesD) (intro encoder_intros)
  show ?case
    using "2.IH" w wb
    by (subst writeObjectValue.simps)
      (auto split: option.splits ObjectValue.splits PrimitiveValue.splits simp: enc_rel_refl)
next
  case (3 mv st)
  show ?case by (simp add: enc_rel_refl)
next
  case (4 mv memberName rest st)
  have "preserves (bind (writeObjectValue (map_of mv memberName)) (\<lambda>_. writeMembers mv rest))"
    using 4 by (intro preserves_bind) (simp_all add: preserves_def)
  then show ?case by (simp add: preserves_def)
next
  case (5 st)
  show ?case by (simp add: enc_rel_refl)
next
  case (6 element rest st)
  have "preserves (bind (writeObjectValue (Some element)) (\<lambda>_. writeElements rest))"
    using 6 by (intro preserves_bind) (simp_all add: preserves_def)
  then show ?case by (simp add: preserves_def)
qed


lemma upt8: "[0 ..< 8] = [0, 1, 2, 3, 4, 5, 6, 7]"
  by (simp add: upt_rec)

lemma sniff_iff:
  "startsWithPayloadHeader b \<longleftrightarrow>
     17 \<le> length b \<and> b ! 0 = 0 \<and> take 8 (drop 9 b) = [1, 0, 0, 0, 0, 0, 0, 0]"
proof (cases "17 \<le> length b")
  case False
  then show ?thesis by (simp add: startsWithPayloadHeader_def)
next
  case True
  have "take 8 (drop 9 b) = [b ! 9, b ! 10, b ! 11, b ! 12, b ! 13, b ! 14, b ! 15, b ! 16]"
    using True by (intro nth_equalityI) (auto simp: nth_Cons' less_Suc_eq numeral_eq_Suc)
  then show ?thesis
    using True by (auto simp: startsWithPayloadHeader_def upt8 word_uint_eq_iff)
qed

lemma le_bytes4:
  "le_bytes 4 v = [word_of_int v, word_of_int (v div 256), word_of_int (v div 256 div 256),
     word_of_int (v div 256 div 256 div 256)]"
proof -
  have four: "(4::nat) = Suc (Suc (Suc (Suc 0)))" by simp
  show ?thesis unfolding four by simp
qed

lemma encode_header:
  assumes "encode x rootId = Return b"
  shows "\<exists>i0 i1 i2 i3 rest. b = [0, i0, i1, i2, i3, 255, 255, 255, 255, 1, 0, 0, 0, 0, 0, 0, 0] @ rest @ [11]"
proof -
  define rid where "rid = (case rootId of Some i \<Rightarrow> i
         | None \<Rightarrow> (case objectId x of Some i \<Rightarrow> i | None \<Rightarrow> 1))"
  define st5 where "st5 = \<lparr>writer = \<lparr>chunks = [[0], le_bytes 4 rid, le_bytes 4 (- 1), le_bytes 4 1,
     le_bytes 4 0]\<rparr>, writtenRecords = {}\<rparr>"
  have run: "encode_run x rootId newNrbfEncoder
      = bind (encodeRecord x) (\<lambda>_. wr (writeByte (RecordType_value MessageEnd))) st5"
    unfolding encode_run_def rid_def [symmetric] Let_def st5_def newNrbfEncoder_def
      newBinaryWriter_def
    by (subst bind_def, simp add: wr_def writeByte_def writeInt32_def pushByte_def push_def)+
  from assms obtain u st' where r: "encode_run x rootId newNrbfEncoder = Return (u, st')"
    and b: "b = toBuffer (writer st')"
    by (auto simp: encode_def split: outcome.splits)
  from r [unfolded run bind_Return] obtain a st6 where
    e: "encodeRecord x st5 = Return (a, st6)"
    and t: "wr (writeByte (RecordType_value MessageEnd)) st6 = Return (u, st')"
    by blast
  from encoder_preserves_aux(1) e have "enc_rel st5 st6" by blast
  then obtain cs where cs: "chunks (writer st6) = chunks (writer st5) @ cs"
    by (auto simp: enc_rel_def)
  from t have "chunks (writer st') = chunks (writer st6) @ [[11]]"
    by (auto simp: wr_def writeByte_def pushByte_def push_def)
  with cs have "b = concat (chunks (writer st5)) @ concat cs @ [11]"
    by (simp add: b toBuffer_def)
  then show ?thesis
    by (simp add: st5_def le_bytes4)
qed

lemmas encoder_eval = encode_def encode_run_def bind_def unit_def throw_def wr_def writeByte_def
  writeInt32_def pushByte_def push_def encodeRecord.simps writeObjectValue.simps truthyId_def
  writeLengthPrefixedString_def utf8_encode_def writeVariableLengthInt_def
  writeVariableLengthInt_loop.simps js_and_def js_or_def js_sar_def js_shl_def ToInt32_def
  markWritten_def toBuffer_def le_bytes4 newNrbfEncoder_def newBinaryWriter_def Let_def

lemma enc_hello: "encode (BinaryObjectStringRecord 1 ''hello'') None
   = Return [0x00, 1,0,0,0, 0xFF,0xFF,0xFF,0xFF, 1,0,0,0, 0,0,0,0, 0x06, 1,0,0,0, 0x05,
       0x68,0x65,0x6C,0x6C,0x6F, 0x0B]"
  by (simp add: encoder_eval)

lemma enc_arr: "encode (ArraySingleObjectRecord 1 3 [Prim PNull, Prim PNull, Prim PNull]) None
   = Return [0x00, 1,0,0,0, 0xFF,0xFF,0xFF,0xFF, 1,0,0,0, 0,0,0,0, 0x10, 1,0,0,0, 3,0,0,0,
       0x0A, 0x0A, 0x0A, 0x0B]"
  by (simp add: encoder_eval)


text \<open>
  C7. Whenever \<open>encode\<close> returns a buffer for a record graph (with or without an explicit
  root id), \<open>startsWithPayloadHeader\<close> is true of that buffer; and for every buffer,
  \<open>startsWithPayloadHeader\<close> is true exactly when the buffer has at least 17 bytes, its
  byte 0 is 0 and its bytes 9 to 16 are 1, 0, 0, 0, 0, 0, 0, 0.
\<close>

theorem C7_header_sniff:
  "(encode x rootId = Return b \<longrightarrow> startsWithPayloadHeader b)
   \<and> (startsWithPayloadHeader b' \<longleftrightarrow>
        17 \<le> length b' \<and> b' ! 0 = 0 \<and> take 8 (drop 9 b') = [1, 0, 0, 0, 0, 0, 0, 0])"
proof (intro conjI impI)
  assume "encode x rootId = Return b"
  from encode_header [OF this] obtain i0 i1 i2 i3 rest where
    "b = [0, i0, i1, i2, i3, 255, 255, 255, 255, 1, 0, 0, 0, 0, 0, 0, 0] @ rest @ [11]"
    by blast
  then show "startsWithPayloadHeader b"
    by (simp add: sniff_iff)
next
  show "startsWithPayloadHeader b' \<longleftrightarrow>
        17 \<le> length b' \<and> b' ! 0 = 0 \<and> take 8 (drop 9 b') = [1, 0, 0, 0, 0, 0, 0, 0]"
    by (rule sniff_iff)
qed


theorem C7_header_sniff_witness:
  "encode (BinaryObjectStringRecord 1 ''hello'') None
     = Return [0x00, 1,0,0,0, 0xFF,0xFF,0xFF,0xFF, 1,0,0,0, 0,0,0,0, 0x06, 1,0,0,0, 0x05,
         0x68,0x65,0x6C,0x6C,0x6F, 0x0B]
   \<and> startsWithPayloadHeader [0x00, 1,0,0,0, 0xFF,0xFF,0xFF,0xFF, 1,0,0,0, 0,0,0,0, 0x06,
         1,0,0,0, 0x05, 0x68,0x65,0x6C,0x6C,0x6F, 0x0B]"
  using C7_header_sniff [of "BinaryObjectStringRecord 1 ''hello''" None
      "[0x00, 1,0,0,0, 0xFF,0xFF,0xFF,0xFF, 1,0,0,0, 0,0,0,0, 0x06, 1,0,0,0, 0x05,
         0x68,0x65,0x6C,0x6C,0x6F, 0x0B]"] enc_hello
  by simp

subsection \<open>The emitted set\<close>









subsection \<open>The GUID helpers\<close>

lemma hexValue_range:
  "hexValue c = Some h \<Longrightarrow> 0 \<le> h \<and> h < 16"
  by (auto simp: hexValue_def Let_def split: if_splits)

lemma hex_not_special:
  assumes "isHexDigit c"
  shows "c \<noteq> CHR ''-''" "c \<noteq> CHR ''+''" "c \<noteq> CHR ''x''" "c \<noteq> CHR ''X''" "\<not> isWhiteSpace c"
  using assms by (auto simp: isHexDigit_def hexValue_def isWhiteSpace_def Let_def split: if_splits)

lemma hex_pair:
  assumes "hexValue c = Some h" "hexValue d = Some l"
  shows "parseInt16 [c, d] = Some (16 * h + l)"
proof -
  have c: "isHexDigit c" and d: "isHexDigit d" using assms by (simp_all add: isHexDigit_def)
  show ?thesis
    using hex_not_special [OF c] hex_not_special [OF d] assms
    by (simp add: parseInt16_def Let_def)
qed

lemma hex_back:
  assumes "hexValue c = Some h"
  shows "hexDigit h = toLowerCaseChar c"
proof -
  have e: "char_of k = c" if "(of_char c :: int) = k" for k
    using that by auto
  show ?thesis
    using assms
    by (auto simp: hexValue_def hexDigit_def toLowerCaseChar_def Let_def algebra_simps
        split: if_splits intro!: e)
qed

lemma toHex2_pair:
  assumes "hexValue c = Some h" "hexValue d = Some l"
  shows "toHex2 (16 * h + l) = [toLowerCaseChar c, toLowerCaseChar d]"
proof -
  from hexValue_range [OF assms(1)] hexValue_range [OF assms(2)]
  have "(16 * h + l) div 16 = h" "(16 * h + l) mod 16 = l" by auto
  then show ?thesis by (simp add: toHex2_def hex_back [OF assms(1)] hex_back [OF assms(2)])
qed

lemma take_bit_ToInt32: "k \<le> 24 \<Longrightarrow> take_bit 8 (drop_bit k (ToInt32 a)) = take_bit 8 (drop_bit k a)"
  unfolding ToInt32_def by (rule bit_eqI) (auto simp: bit_simps)

lemma take_bit_ToInt16: "k \<le> 8 \<Longrightarrow> take_bit 8 (drop_bit k (ToInt16 a)) = take_bit 8 (drop_bit k a)"
  unfolding ToInt16_def by (rule bit_eqI) (auto simp: bit_simps)

lemma js_and_255: "js_and y 0xFF = take_bit 8 y"
proof -
  have "ToInt32 y AND mask 8 = take_bit 8 (ToInt32 y)" by (rule take_bit_eq_mask [symmetric])
  moreover have "mask 8 = (255::int)" by (simp add: mask_eq_exp_minus_1)
  moreover have "ToInt32 255 = 255" by (simp add: ToInt32_def)
  moreover have "take_bit 8 (ToInt32 y) = take_bit 8 y"
    using take_bit_ToInt32 [of 0 y] by simp
  ultimately show ?thesis by (simp add: js_and_def)
qed


lemma upt16: "[0 ..< 16] = [0, 1, 2, 3, 4, 5, 6, 7, 8, 9, 10, 11, 12, 13, 14, 15]"
  by (simp add: upt_rec)

lemma le_uint_take: "take_bit 8 (le_uint (b # bs)) = uint b"
proof -
  have "take_bit 8 (le_uint (b # bs)) = (uint b + 256 * le_uint bs) mod 256"
    by (simp add: take_bit_eq_mod)
  also have "\<dots> = uint b mod 256" by (simp add: mod_add_eq)
  also have "\<dots> = uint b" using uint_lt2p [of b] by simp
  finally show ?thesis .
qed

lemma le_uint_drop: "drop_bit 8 (le_uint (b # bs)) = le_uint bs"
proof -
  have "0 \<le> uint b" "uint b < 256" using uint_lt2p [of b] by simp_all
  then show ?thesis by (simp add: drop_bit_eq_div)
qed

lemma byte_0: "word_of_int (js_and (ToInt32 (le_uint (b # bs))) 0xFF) = (b :: byte)"
proof -
  have "take_bit 8 (drop_bit 0 (ToInt32 (le_uint (b # bs))))
      = take_bit 8 (drop_bit 0 (le_uint (b # bs)))"
    by (rule take_bit_ToInt32) simp
  then have "js_and (ToInt32 (le_uint (b # bs))) 0xFF = take_bit 8 (le_uint (b # bs))"
    by (simp only: js_and_255 drop_bit_0 id_apply)
  also have "\<dots> = uint b" by (rule le_uint_take)
  finally show ?thesis by simp
qed

lemma byte_1:
  "word_of_int (js_and (js_sar (ToInt32 (le_uint (b0 # b # bs))) 8) 0xFF) = (b :: byte)"
proof -
  have "ToInt32 (ToInt32 (le_uint (b0 # b # bs))) = ToInt32 (le_uint (b0 # b # bs))"
    by (simp add: ToInt32_def)
  then have "js_and (js_sar (ToInt32 (le_uint (b0 # b # bs))) 8) 0xFF
      = take_bit 8 (drop_bit 8 (ToInt32 (le_uint (b0 # b # bs))))"
    by (simp add: js_and_255 js_sar_def)
  also have "\<dots> = take_bit 8 (drop_bit 8 (le_uint (b0 # b # bs)))"
    by (rule take_bit_ToInt32) simp
  also have "\<dots> = uint b" by (simp only: le_uint_drop le_uint_take)
  finally show ?thesis by simp
qed

lemma byte_2:
  "word_of_int (js_and (js_sar (ToInt32 (le_uint (b0 # b1 # b # bs))) 16) 0xFF) = (b :: byte)"
proof -
  have "ToInt32 (ToInt32 (le_uint (b0 # b1 # b # bs))) = ToInt32 (le_uint (b0 # b1 # b # bs))"
    by (simp add: ToInt32_def)
  then have "js_and (js_sar (ToInt32 (le_uint (b0 # b1 # b # bs))) 16) 0xFF
      = take_bit 8 (drop_bit 16 (ToInt32 (le_uint (b0 # b1 # b # bs))))"
    by (simp add: js_and_255 js_sar_def)
  also have "\<dots> = take_bit 8 (drop_bit 16 (le_uint (b0 # b1 # b # bs)))"
    by (rule take_bit_ToInt32) simp
  also have "drop_bit 16 (le_uint (b0 # b1 # b # bs))
      = drop_bit 8 (drop_bit 8 (le_uint (b0 # b1 # b # bs)))"
    by (simp add: drop_bit_drop_bit)
  also have "take_bit 8 \<dots> = uint b" by (simp only: le_uint_drop le_uint_take)
  finally show ?thesis by simp
qed

lemma byte_3:
  "word_of_int (js_and (js_sar (ToInt32 (le_uint (b0 # b1 # b2 # b # bs))) 24) 0xFF) = (b :: byte)"
proof -
  have "ToInt32 (ToInt32 (le_uint (b0 # b1 # b2 # b # bs)))
      = ToInt32 (le_uint (b0 # b1 # b2 # b # bs))"
    by (simp add: ToInt32_def)
  then have "js_and (js_sar (ToInt32 (le_uint (b0 # b1 # b2 # b # bs))) 24) 0xFF
      = take_bit 8 (drop_bit 24 (ToInt32 (le_uint (b0 # b1 # b2 # b # bs))))"
    by (simp add: js_and_255 js_sar_def)
  also have "\<dots> = take_bit 8 (drop_bit 24 (le_uint (b0 # b1 # b2 # b # bs)))"
    by (rule take_bit_ToInt32) simp
  also have "drop_bit 24 (le_uint (b0 # b1 # b2 # b # bs))
      = drop_bit 8 (drop_bit 8 (drop_bit 8 (le_uint (b0 # b1 # b2 # b # bs))))"
    by (simp add: drop_bit_drop_bit)
  also have "take_bit 8 \<dots> = uint b" by (simp only: le_uint_drop le_uint_take)
  finally show ?thesis by simp
qed

lemma short_0: "word_of_int (js_and (ToInt16 (le_uint (b # bs))) 0xFF) = (b :: byte)"
proof -
  have "take_bit 8 (drop_bit 0 (ToInt16 (le_uint (b # bs))))
      = take_bit 8 (drop_bit 0 (le_uint (b # bs)))"
    by (rule take_bit_ToInt16) simp
  then have "js_and (ToInt16 (le_uint (b # bs))) 0xFF = take_bit 8 (le_uint (b # bs))"
    by (simp only: js_and_255 drop_bit_0 id_apply)
  also have "\<dots> = uint b" by (rule le_uint_take)
  finally show ?thesis by simp
qed

lemma short_1:
  "word_of_int (js_and (js_sar (ToInt16 (le_uint (b0 # b # bs))) 8) 0xFF) = (b :: byte)"
proof -
  have "js_and (js_sar (ToInt16 (le_uint (b0 # b # bs))) 8) 0xFF
      = take_bit 8 (drop_bit 8 (ToInt32 (ToInt16 (le_uint (b0 # b # bs)))))"
    by (simp add: js_and_255 js_sar_def)
  also have "\<dots> = take_bit 8 (drop_bit 8 (ToInt16 (le_uint (b0 # b # bs))))"
    by (rule take_bit_ToInt32) simp
  also have "\<dots> = take_bit 8 (drop_bit 8 (le_uint (b0 # b # bs)))"
    by (rule take_bit_ToInt16) simp
  also have "\<dots> = uint b" by (simp only: le_uint_drop le_uint_take)
  finally show ?thesis by simp
qed


lemma guid_explicit:
  assumes h0: "isHexDigit c0"
    and h1: "isHexDigit c1"
    and h2: "isHexDigit c2"
    and h3: "isHexDigit c3"
    and h4: "isHexDigit c4"
    and h5: "isHexDigit c5"
    and h6: "isHexDigit c6"
    and h7: "isHexDigit c7"
    and h9: "isHexDigit c9"
    and h10: "isHexDigit c10"
    and h11: "isHexDigit c11"
    and h12: "isHexDigit c12"
    and h14: "isHexDigit c14"
    and h15: "isHexDigit c15"
    and h16: "isHexDigit c16"
    and h17: "isHexDigit c17"
    and h19: "isHexDigit c19"
    and h20: "isHexDigit c20"
    and h21: "isHexDigit c21"
    and h22: "isHexDigit c22"
    and h24: "isHexDigit c24"
    and h25: "isHexDigit c25"
    and h26: "isHexDigit c26"
    and h27: "isHexDigit c27"
    and h28: "isHexDigit c28"
    and h29: "isHexDigit c29"
    and h30: "isHexDigit c30"
    and h31: "isHexDigit c31"
    and h32: "isHexDigit c32"
    and h33: "isHexDigit c33"
    and h34: "isHexDigit c34"
    and h35: "isHexDigit c35"
  shows "\<exists>r. createGuidRecord objId [c0, c1, c2, c3, c4, c5, c6, c7, CHR ''-'', c9, c10, c11, c12, CHR ''-'', c14, c15, c16, c17, CHR ''-'', c19, c20, c21, c22, CHR ''-'', c24, c25, c26, c27, c28, c29, c30, c31, c32, c33, c34, c35] = Return r
           \<and> parseGuid r = Return [toLowerCaseChar c0, toLowerCaseChar c1, toLowerCaseChar c2, toLowerCaseChar c3, toLowerCaseChar c4, toLowerCaseChar c5, toLowerCaseChar c6, toLowerCaseChar c7, CHR ''-'', toLowerCaseChar c9, toLowerCaseChar c10, toLowerCaseChar c11, toLowerCaseChar c12, CHR ''-'', toLowerCaseChar c14, toLowerCaseChar c15, toLowerCaseChar c16, toLowerCaseChar c17, CHR ''-'', toLowerCaseChar c19, toLowerCaseChar c20, toLowerCaseChar c21, toLowerCaseChar c22, CHR ''-'', toLowerCaseChar c24, toLowerCaseChar c25, toLowerCaseChar c26, toLowerCaseChar c27, toLowerCaseChar c28, toLowerCaseChar c29, toLowerCaseChar c30, toLowerCaseChar c31, toLowerCaseChar c32, toLowerCaseChar c33, toLowerCaseChar c34, toLowerCaseChar c35]"
proof -
  define hv where "hv c = the (hexValue c)" for c
  have hvs: "hexValue c = Some (hv c)" if "isHexDigit c" for c
    using that by (auto simp: isHexDigit_def hv_def)
  have pi: "byteOfParse (parseInt16 [c, d]) = 16 * hv c + hv d"
    if "isHexDigit c" "isHexDigit d" for c d
    using hex_pair [OF hvs [OF that(1)] hvs [OF that(2)]] by (simp add: byteOfParse_def)
  have hexbyte: "toHex2 (uint (word_of_int (16 * hv c + hv d) :: byte))
      = [toLowerCaseChar c, toLowerCaseChar d]" if "isHexDigit c" "isHexDigit d" for c d
  proof -
    from hexValue_range [OF hvs [OF that(1)]] hexValue_range [OF hvs [OF that(2)]]
    have "0 \<le> 16 * hv c + hv d" "16 * hv c + hv d < 256" by auto
    then have "uint (word_of_int (16 * hv c + hv d) :: byte) = 16 * hv c + hv d"
      by (rule uint_byte_of_int)
    then show ?thesis by (simp only: toHex2_pair [OF hvs [OF that(1)] hvs [OF that(2)]])
  qed
  define B0 :: byte where "B0 = word_of_int (16 * hv c0 + hv c1)"
  define B1 :: byte where "B1 = word_of_int (16 * hv c2 + hv c3)"
  define B2 :: byte where "B2 = word_of_int (16 * hv c4 + hv c5)"
  define B3 :: byte where "B3 = word_of_int (16 * hv c6 + hv c7)"
  define B4 :: byte where "B4 = word_of_int (16 * hv c9 + hv c10)"
  define B5 :: byte where "B5 = word_of_int (16 * hv c11 + hv c12)"
  define B6 :: byte where "B6 = word_of_int (16 * hv c14 + hv c15)"
  define B7 :: byte where "B7 = word_of_int (16 * hv c16 + hv c17)"
  define B8 :: byte where "B8 = word_of_int (16 * hv c19 + hv c20)"
  define B9 :: byte where "B9 = word_of_int (16 * hv c21 + hv c22)"
  define B10 :: byte where "B10 = word_of_int (16 * hv c24 + hv c25)"
  define B11 :: byte where "B11 = word_of_int (16 * hv c26 + hv c27)"
  define B12 :: byte where "B12 = word_of_int (16 * hv c28 + hv c29)"
  define B13 :: byte where "B13 = word_of_int (16 * hv c30 + hv c31)"
  define B14 :: byte where "B14 = word_of_int (16 * hv c32 + hv c33)"
  define B15 :: byte where "B15 = word_of_int (16 * hv c34 + hv c35)"
  note hs = h0 h1 h2 h3 h4 h5 h6 h7 h9 h10 h11 h12 h14 h15 h16 h17 h19 h20 h21 h22 h24 h25 h26 h27 h28 h29 h30 h31 h32 h33 h34 h35
  have filt: "filter (\<lambda>c. c \<noteq> CHR ''-'') [c0, c1, c2, c3, c4, c5, c6, c7, CHR ''-'', c9, c10, c11, c12, CHR ''-'', c14, c15, c16, c17, CHR ''-'', c19, c20, c21, c22, CHR ''-'', c24, c25, c26, c27, c28, c29, c30, c31, c32, c33, c34, c35]
      = [c0, c1, c2, c3, c4, c5, c6, c7, c9, c10, c11, c12, c14, c15, c16, c17, c19, c20, c21, c22, c24, c25, c26, c27, c28, c29, c30, c31, c32, c33, c34, c35]"
    using hs [THEN hex_not_special(1)] by simp
  have bytes: "map (\<lambda>i. word_of_int (byteOfParse (parseInt16 (slice2 [c0, c1, c2, c3, c4, c5, c6, c7, c9, c10, c11, c12, c14, c15, c16, c17, c19, c20, c21, c22, c24, c25, c26, c27, c28, c29, c30, c31, c32, c33, c34, c35] (2 * i))))) [0 ..< 16]
      = ([B0, B1, B2, B3, B4, B5, B6, B7, B8, B9, B10, B11, B12, B13, B14, B15] :: byte list)"
    unfolding upt16 B0_def B1_def B2_def B3_def B4_def B5_def B6_def B7_def B8_def B9_def B10_def B11_def B12_def B13_def B14_def B15_def
    by (simp add: slice2_def pi hs)
  have H1: "createGuidRecord objId [c0, c1, c2, c3, c4, c5, c6, c7, CHR ''-'', c9, c10, c11, c12, CHR ''-'', c14, c15, c16, c17, CHR ''-'', c19, c20, c21, c22, CHR ''-'', c24, c25, c26, c27, c28, c29, c30, c31, c32, c33, c34, c35]
      = Return (ClassRecord \<lparr>ci_objectId = objId, ci_name = ''System.Guid'', ci_memberCount = 11,
          ci_memberNames = guidMemberNames\<rparr>
        (Some \<lparr>binaryTypeEnums = replicate 11 BinaryType_Primitive,
           additionalInfos = [AT_Primitive PrimitiveType_Int32, AT_Primitive PrimitiveType_Int16,
             AT_Primitive PrimitiveType_Int16] @ replicate 8 (AT_Primitive PrimitiveType_Byte)\<rparr>)
        None SystemClassWithMembersAndTypes
        [(''_a'', Prim (PNumber (Integer (ToInt32 (le_uint [B0, B1, B2, B3]))))),
         (''_b'', Prim (PNumber (Integer (ToInt16 (le_uint [B4, B5]))))),
         (''_c'', Prim (PNumber (Integer (ToInt16 (le_uint [B6, B7]))))),
         (''_d'', Prim (PNumber (Integer (uint B8)))),
         (''_e'', Prim (PNumber (Integer (uint B9)))),
         (''_f'', Prim (PNumber (Integer (uint B10)))),
         (''_g'', Prim (PNumber (Integer (uint B11)))),
         (''_h'', Prim (PNumber (Integer (uint B12)))),
         (''_i'', Prim (PNumber (Integer (uint B13)))),
         (''_j'', Prim (PNumber (Integer (uint B14)))),
         (''_k'', Prim (PNumber (Integer (uint B15))))])"
    unfolding createGuidRecord_def filt Let_def bytes
    by (simp add: guidMemberNames_def del: le_uint.simps)
  have u0: "toHex2 (uint B0) = [toLowerCaseChar c0, toLowerCaseChar c1]"
    unfolding B0_def by (rule hexbyte) (rule h0, rule h1)
  have u1: "toHex2 (uint B1) = [toLowerCaseChar c2, toLowerCaseChar c3]"
    unfolding B1_def by (rule hexbyte) (rule h2, rule h3)
  have u2: "toHex2 (uint B2) = [toLowerCaseChar c4, toLowerCaseChar c5]"
    unfolding B2_def by (rule hexbyte) (rule h4, rule h5)
  have u3: "toHex2 (uint B3) = [toLowerCaseChar c6, toLowerCaseChar c7]"
    unfolding B3_def by (rule hexbyte) (rule h6, rule h7)
  have u4: "toHex2 (uint B4) = [toLowerCaseChar c9, toLowerCaseChar c10]"
    unfolding B4_def by (rule hexbyte) (rule h9, rule h10)
  have u5: "toHex2 (uint B5) = [toLowerCaseChar c11, toLowerCaseChar c12]"
    unfolding B5_def by (rule hexbyte) (rule h11, rule h12)
  have u6: "toHex2 (uint B6) = [toLowerCaseChar c14, toLowerCaseChar c15]"
    unfolding B6_def by (rule hexbyte) (rule h14, rule h15)
  have u7: "toHex2 (uint B7) = [toLowerCaseChar c16, toLowerCaseChar c17]"
    unfolding B7_def by (rule hexbyte) (rule h16, rule h17)
  have u8: "toHex2 (uint B8) = [toLowerCaseChar c19, toLowerCaseChar c20]"
    unfolding B8_def by (rule hexbyte) (rule h19, rule h20)
  have u9: "toHex2 (uint B9) = [toLowerCaseChar c21, toLowerCaseChar c22]"
    unfolding B9_def by (rule hexbyte) (rule h21, rule h22)
  have u10: "toHex2 (uint B10) = [toLowerCaseChar c24, toLowerCaseChar c25]"
    unfolding B10_def by (rule hexbyte) (rule h24, rule h25)
  have u11: "toHex2 (uint B11) = [toLowerCaseChar c26, toLowerCaseChar c27]"
    unfolding B11_def by (rule hexbyte) (rule h26, rule h27)
  have u12: "toHex2 (uint B12) = [toLowerCaseChar c28, toLowerCaseChar c29]"
    unfolding B12_def by (rule hexbyte) (rule h28, rule h29)
  have u13: "toHex2 (uint B13) = [toLowerCaseChar c30, toLowerCaseChar c31]"
    unfolding B13_def by (rule hexbyte) (rule h30, rule h31)
  have u14: "toHex2 (uint B14) = [toLowerCaseChar c32, toLowerCaseChar c33]"
    unfolding B14_def by (rule hexbyte) (rule h32, rule h33)
  have u15: "toHex2 (uint B15) = [toLowerCaseChar c34, toLowerCaseChar c35]"
    unfolding B15_def by (rule hexbyte) (rule h34, rule h35)
  have H2: "parseGuid (ClassRecord \<lparr>ci_objectId = objId, ci_name = ''System.Guid'', ci_memberCount = 11,
          ci_memberNames = guidMemberNames\<rparr>
        (Some \<lparr>binaryTypeEnums = replicate 11 BinaryType_Primitive,
           additionalInfos = [AT_Primitive PrimitiveType_Int32, AT_Primitive PrimitiveType_Int16,
             AT_Primitive PrimitiveType_Int16] @ replicate 8 (AT_Primitive PrimitiveType_Byte)\<rparr>)
        None SystemClassWithMembersAndTypes
        [(''_a'', Prim (PNumber (Integer (ToInt32 (le_uint [B0, B1, B2, B3]))))),
         (''_b'', Prim (PNumber (Integer (ToInt16 (le_uint [B4, B5]))))),
         (''_c'', Prim (PNumber (Integer (ToInt16 (le_uint [B6, B7]))))),
         (''_d'', Prim (PNumber (Integer (uint B8)))),
         (''_e'', Prim (PNumber (Integer (uint B9)))),
         (''_f'', Prim (PNumber (Integer (uint B10)))),
         (''_g'', Prim (PNumber (Integer (uint B11)))),
         (''_h'', Prim (PNumber (Integer (uint B12)))),
         (''_i'', Prim (PNumber (Integer (uint B13)))),
         (''_j'', Prim (PNumber (Integer (uint B14)))),
         (''_k'', Prim (PNumber (Integer (uint B15))))])
      = Return [toLowerCaseChar c0, toLowerCaseChar c1, toLowerCaseChar c2, toLowerCaseChar c3, toLowerCaseChar c4, toLowerCaseChar c5, toLowerCaseChar c6, toLowerCaseChar c7, CHR ''-'', toLowerCaseChar c9, toLowerCaseChar c10, toLowerCaseChar c11, toLowerCaseChar c12, CHR ''-'', toLowerCaseChar c14, toLowerCaseChar c15, toLowerCaseChar c16, toLowerCaseChar c17, CHR ''-'', toLowerCaseChar c19, toLowerCaseChar c20, toLowerCaseChar c21, toLowerCaseChar c22, CHR ''-'', toLowerCaseChar c24, toLowerCaseChar c25, toLowerCaseChar c26, toLowerCaseChar c27, toLowerCaseChar c28, toLowerCaseChar c29, toLowerCaseChar c30, toLowerCaseChar c31, toLowerCaseChar c32, toLowerCaseChar c33, toLowerCaseChar c34, toLowerCaseChar c35]"
    unfolding parseGuid_def reconstructGuid_def
    by (simp add: guidMemberNames_def asNumber_def Let_def slice_def byte_0 byte_1 byte_2 byte_3
        short_0 short_1 u0 u1 u2 u3 u4 u5 u6 u7 u8 u9 u10 u11 u12 u13 u14 u15 del: le_uint.simps)
  show ?thesis using H1 H2 by simp
qed


text \<open>
  C6. For every well-formed GUID string \<open>s\<close>, of either case, and every object id,
  \<open>createGuidRecord\<close> returns a record and \<open>parseGuid\<close> of that record returns
  \<open>s\<close> in lower case; the Int32 and Int16 members may be negative.
\<close>

theorem C6_guid_roundtrip:
  assumes "wellFormedGuid s"
  shows "\<exists>r. createGuidRecord objId s = Return r \<and> parseGuid r = Return (toLowerCase s)"
proof -
  from assms have len: "length s = 36" by (simp add: wellFormedGuid_def)
  then obtain c0 c1 c2 c3 c4 c5 c6 c7 c8 c9 c10 c11 c12 c13 c14 c15 c16 c17 c18 c19 c20 c21 c22 c23 c24 c25 c26 c27 c28 c29 c30 c31 c32 c33 c34 c35 where
    s: "s = [c0, c1, c2, c3, c4, c5, c6, c7, c8, c9, c10, c11, c12, c13, c14, c15, c16, c17, c18, c19, c20, c21, c22, c23, c24, c25, c26, c27, c28, c29, c30, c31, c32, c33, c34, c35]"
    by (auto simp: numeral_eq_Suc length_Suc_conv)
  from assms have shape: "isHexDigit c0" "isHexDigit c1" "isHexDigit c2" "isHexDigit c3" "isHexDigit c4" "isHexDigit c5" "isHexDigit c6" "isHexDigit c7" "c8 = CHR ''-''" "isHexDigit c9" "isHexDigit c10" "isHexDigit c11" "isHexDigit c12" "c13 = CHR ''-''" "isHexDigit c14" "isHexDigit c15" "isHexDigit c16" "isHexDigit c17" "c18 = CHR ''-''" "isHexDigit c19" "isHexDigit c20" "isHexDigit c21" "isHexDigit c22" "c23 = CHR ''-''" "isHexDigit c24" "isHexDigit c25" "isHexDigit c26" "isHexDigit c27" "isHexDigit c28" "isHexDigit c29" "isHexDigit c30" "isHexDigit c31" "isHexDigit c32" "isHexDigit c33" "isHexDigit c34" "isHexDigit c35"
    unfolding s wellFormedGuid_def guidShape_def by simp_all
  have low: "toLowerCaseChar (CHR ''-'') = CHR ''-''" by (simp add: toLowerCaseChar_def)
  show ?thesis
    using guid_explicit [of c0 c1 c2 c3 c4 c5 c6 c7 c9 c10 c11 c12 c14 c15 c16 c17 c19 c20 c21 c22 c24 c25 c26 c27 c28 c29 c30 c31 c32 c33 c34 c35 objId, OF shape(1) shape(2) shape(3) shape(4) shape(5) shape(6) shape(7) shape(8) shape(10) shape(11) shape(12) shape(13) shape(15) shape(16) shape(17) shape(18) shape(20) shape(21) shape(22) shape(23) shape(25) shape(26) shape(27) shape(28) shape(29) shape(30) shape(31) shape(32) shape(33) shape(34) shape(35) shape(36)]
    unfolding s shape(9) shape(14) shape(19) shape(24) toLowerCase_def
    by (simp add: low)
qed

lemma guid_negative_members:
  "createGuidRecord 5 ''F37B1FEc-87Fe-44fc-8c0f-451bB24805AC'' = Return r \<Longrightarrow>
     getValue r ''_a'' = Some (Prim (PNumber (Integer (- 333480973))))
     \<and> getValue r ''_b'' = Some (Prim (PNumber (Integer (- 377))))
     \<and> getValue r ''_c'' = Some (Prim (PNumber (Integer (- 956))))"
  by (auto simp add: createGuidRecord_def Let_def upt16 slice2_def parseInt16_def hexValue_def
      isWhiteSpace_def byteOfParse_def guidMemberNames_def ToInt32_def ToInt16_def)

theorem C6_guid_roundtrip_witness:
  "wellFormedGuid ''F37B1FEc-87Fe-44fc-8c0f-451bB24805AC''
   \<and> (\<exists>r. createGuidRecord 5 ''F37B1FEc-87Fe-44fc-8c0f-451bB24805AC'' = Return r
        \<and> parseGuid r = Return ''f37b1fec-87fe-44fc-8c0f-451bb24805ac''
        \<and> getValue r ''_a'' = Some (Prim (PNumber (Integer (- 333480973))))
        \<and> getValue r ''_b'' = Some (Prim (PNumber (Integer (- 377))))
        \<and> getValue r ''_c'' = Some (Prim (PNumber (Integer (- 956)))))"
proof -
  have w: "wellFormedGuid ''F37B1FEc-87Fe-44fc-8c0f-451bB24805AC''"
    by (simp add: wellFormedGuid_def guidShape_def isHexDigit_def hexValue_def)
  have l: "toLowerCase ''F37B1FEc-87Fe-44fc-8c0f-451bB24805AC''
      = ''f37b1fec-87fe-44fc-8c0f-451bb24805ac''"
    by (simp add: toLowerCase_def toLowerCaseChar_def char_of_def)
  from C6_guid_roundtrip [OF w, of 5] obtain r where
    r: "createGuidRecord 5 ''F37B1FEc-87Fe-44fc-8c0f-451bB24805AC'' = Return r"
      "parseGuid r = Return (toLowerCase ''F37B1FEc-87Fe-44fc-8c0f-451bB24805AC'')"
    by blast
  from guid_negative_members [OF r(1)] r w show ?thesis
    by (auto simp only: l)
qed

subsection \<open>More fuel does not change an outcome\<close>

text \<open>
  An outcome of the decoder other than \<open>OutOfFuel\<close> is its outcome with any larger fuel:
  the fuel only bounds the model, the results below do not depend on the amount given.
\<close>

lemma refines_refl: "refines f f"
  by (simp add: refines_def)

lemma refines_bind:
  assumes "refines m m'" and "\<And>x. refines (f x) (f' x)"
  shows "refines (bind m f) (bind m' f')"
  unfolding refines_def
proof (intro allI impI)
  fix s
  assume a: "bind m f s \<noteq> OutOfFuel"
  then have "m s \<noteq> OutOfFuel" by (auto simp: bind_def)
  with assms(1) have m: "m' s = m s" by (simp add: refines_def)
  show "bind m' f' s = bind m f s"
  proof (cases "m s")
    case (Return p)
    obtain x s' where p: "p = (x, s')" by (cases p)
    from a Return p have "f x s' \<noteq> OutOfFuel" by (simp add: bind_def)
    with assms(2) have "f' x s' = f x s'" by (simp add: refines_def)
    then show ?thesis by (simp add: bind_def m Return p)
  qed (simp_all add: bind_def m)
qed

lemma refines_eta:
  "(\<And>s. f s = F s) \<Longrightarrow> (\<And>s. g s = G s) \<Longrightarrow> refines F G \<Longrightarrow> refines f g"
  by (simp add: refines_def)

lemma refines_if:
  "(c \<Longrightarrow> refines a a') \<Longrightarrow> (\<not> c \<Longrightarrow> refines b b') \<Longrightarrow>
     refines (if c then a else b) (if c then a' else b')"
  by simp

lemma refines_readObjectValue:
  "refines next next' \<Longrightarrow> refines (readObjectValue next bt ai) (readObjectValue next' bt ai)"
  by (rule refines_eta [OF readObjectValue_def readObjectValue_def])
    (auto intro!: refines_bind refines_refl split: option.splits AdditionalTypeInfo.splits)

lemma refines_readMemberValues:
  "refines next next' \<Longrightarrow>
     refines (readMemberValues next i names mti mv) (readMemberValues next' i names mti mv)"
proof (induction names arbitrary: i mv)
  case Nil
  have "readMemberValues next i [] mti mv = readMemberValues next' i [] mti mv"
    by (rule ext) simp
  then show ?case by (simp add: refines_refl)
next
  case (Cons n names)
  show ?case
    by (rule refines_eta [OF readMemberValues.simps(2) readMemberValues.simps(2)])
      (intro refines_bind refines_readObjectValue Cons)
qed

lemma refines_readMemberRecords:
  "refines next next' \<Longrightarrow>
     refines (readMemberRecords next names mv) (readMemberRecords next' names mv)"
proof (induction names arbitrary: mv)
  case Nil
  have "readMemberRecords next [] mv = readMemberRecords next' [] mv"
    by (rule ext) simp
  then show ?case by (simp add: refines_refl)
next
  case (Cons n names)
  show ?case
    by (rule refines_eta [OF readMemberRecords.simps(2) readMemberRecords.simps(2)])
      (intro refines_bind Cons)
qed

lemmas refines_intros = refines_bind refines_readMemberValues refines_readMemberRecords
  refines_readObjectValue

lemma refines_classes:
  assumes "refines next next'"
  shows "refines (decodeClassWithMembersAndTypes next) (decodeClassWithMembersAndTypes next')"
    and "refines (decodeSystemClassWithMembersAndTypes next)
           (decodeSystemClassWithMembersAndTypes next')"
    and "refines (decodeSystemClassWithMembers next) (decodeSystemClassWithMembers next')"
    and "refines (decodeClassWithMembers next) (decodeClassWithMembers next')"
proof -
  show "refines (decodeClassWithMembersAndTypes next) (decodeClassWithMembersAndTypes next')"
    by (rule refines_eta [OF decodeClassWithMembersAndTypes_def decodeClassWithMembersAndTypes_def])
      (intro refines_intros assms refines_refl)
  show "refines (decodeSystemClassWithMembersAndTypes next)
           (decodeSystemClassWithMembersAndTypes next')"
    by (rule refines_eta [OF decodeSystemClassWithMembersAndTypes_def
          decodeSystemClassWithMembersAndTypes_def])
      (intro refines_intros assms refines_refl)
  show "refines (decodeSystemClassWithMembers next) (decodeSystemClassWithMembers next')"
    by (rule refines_eta [OF decodeSystemClassWithMembers_def decodeSystemClassWithMembers_def])
      (intro refines_intros assms refines_refl)
  show "refines (decodeClassWithMembers next) (decodeClassWithMembers next')"
    by (rule refines_eta [OF decodeClassWithMembers_def decodeClassWithMembers_def])
      (intro refines_intros assms refines_refl)
qed


lemma refinesD: "refines f g \<Longrightarrow> f s \<noteq> OutOfFuel \<Longrightarrow> g s = f s"
  by (simp add: refines_def)

lemma refines_decodeClassWithId:
  assumes "refines next next'"
  shows "refines (decodeClassWithId next) (decodeClassWithId next')"
proof -
  have inner: "refines
      (\<lambda>d. case metadataMap d metadataId of
         None \<Rightarrow> Throw (MetadataNotFound metadataId)
       | Some (mClassInfo, mMemberTypeInfo, mLibraryId) \<Rightarrow>
           (let classInfo = \<lparr>ci_objectId = objId, ci_name = ci_name mClassInfo,
                              ci_memberCount = ci_memberCount mClassInfo,
                              ci_memberNames = ci_memberNames mClassInfo\<rparr>
            in bind (recordMap_set objId
                       (ClassRecord classInfo mMemberTypeInfo mLibraryId ClassWithId [])) (\<lambda>a.
               bind (case mMemberTypeInfo of
                       Some memberTypeInfo \<Rightarrow>
                         readMemberValues next 0 (ci_memberNames classInfo) memberTypeInfo []
                     | None \<Rightarrow> readMemberRecords next (ci_memberNames classInfo) []) (\<lambda>mv.
               bind (heap_store a
                       (ClassRecord classInfo mMemberTypeInfo mLibraryId ClassWithId mv)) (\<lambda>_.
                 unit (ClassRecord classInfo mMemberTypeInfo mLibraryId ClassWithId mv)))) d))
      (\<lambda>d. case metadataMap d metadataId of
         None \<Rightarrow> Throw (MetadataNotFound metadataId)
       | Some (mClassInfo, mMemberTypeInfo, mLibraryId) \<Rightarrow>
           (let classInfo = \<lparr>ci_objectId = objId, ci_name = ci_name mClassInfo,
                              ci_memberCount = ci_memberCount mClassInfo,
                              ci_memberNames = ci_memberNames mClassInfo\<rparr>
            in bind (recordMap_set objId
                       (ClassRecord classInfo mMemberTypeInfo mLibraryId ClassWithId [])) (\<lambda>a.
               bind (case mMemberTypeInfo of
                       Some memberTypeInfo \<Rightarrow>
                         readMemberValues next' 0 (ci_memberNames classInfo) memberTypeInfo []
                     | None \<Rightarrow> readMemberRecords next' (ci_memberNames classInfo) []) (\<lambda>mv.
               bind (heap_store a
                       (ClassRecord classInfo mMemberTypeInfo mLibraryId ClassWithId mv)) (\<lambda>_.
                 unit (ClassRecord classInfo mMemberTypeInfo mLibraryId ClassWithId mv)))) d))"
    for objId metadataId
    unfolding refines_def
  proof (intro allI impI, goal_cases)
    case (1 d)
    show ?case
    proof (cases "metadataMap d metadataId")
      case None
      then show ?thesis by simp
    next
      case (Some m)
      obtain ci mti lib where m: "m = (ci, mti, lib)" by (cases m)
      have r: "refines
          (case mti of Some memberTypeInfo \<Rightarrow> readMemberValues next 0 (ci_memberNames ci) memberTypeInfo []
             | None \<Rightarrow> readMemberRecords next (ci_memberNames ci) [])
          (case mti of Some memberTypeInfo \<Rightarrow> readMemberValues next' 0 (ci_memberNames ci) memberTypeInfo []
             | None \<Rightarrow> readMemberRecords next' (ci_memberNames ci) [])"
        using assms by (cases mti) (simp_all add: refines_intros)
      from 1 show ?thesis
        unfolding Some m option.case prod.case Let_def ClassInfo.simps
        by (intro refinesD [rotated]) (assumption, intro refines_bind refines_refl r)
    qed
  qed
  show ?thesis
    by (rule refines_eta [OF decodeClassWithId_def decodeClassWithId_def])
      (intro refines_bind refines_refl inner)
qed

lemma readAllElements_loop_done:
  "\<not> i < count \<Longrightarrow> readAllElements_loop next fuel count bt ai i elements d = unit elements d"
  by (cases fuel) simp_all

lemma refines_readAllElements_loop:
  assumes "refines next next'"
  shows "refines (readAllElements_loop next fuel count bt ai i elements)
           (readAllElements_loop next' (fuel + k) count bt ai i elements)"
proof (induction fuel arbitrary: i elements)
  case 0
  show ?case
    by (auto simp: refines_def readAllElements_loop_done)
next
  case (Suc fuel)
  show ?case
  proof (cases "i < count")
    case False
    then show ?thesis by (auto simp: refines_def readAllElements_loop_done)
  next
    case True
    have "refines
        (bind (readObjectValue next (Some bt) (Some ai)) (\<lambda>val.
          case val of
            Rec (ObjectNullMultipleRecord nullCount) \<Rightarrow>
              readAllElements_loop next fuel count bt ai (i + nullCount)
                (elements @ replicate (nat nullCount) (Prim PNull))
          | Rec (ObjectNullMultiple256Record nullCount) \<Rightarrow>
              readAllElements_loop next fuel count bt ai (i + nullCount)
                (elements @ replicate (nat nullCount) (Prim PNull))
          | Rec ObjectNullRecord \<Rightarrow>
              readAllElements_loop next fuel count bt ai (i + 1) (elements @ [Prim PNull])
          | _ \<Rightarrow>
              readAllElements_loop next fuel count bt ai (i + 1) (elements @ [val])))
        (bind (readObjectValue next' (Some bt) (Some ai)) (\<lambda>val.
          case val of
            Rec (ObjectNullMultipleRecord nullCount) \<Rightarrow>
              readAllElements_loop next' (fuel + k) count bt ai (i + nullCount)
                (elements @ replicate (nat nullCount) (Prim PNull))
          | Rec (ObjectNullMultiple256Record nullCount) \<Rightarrow>
              readAllElements_loop next' (fuel + k) count bt ai (i + nullCount)
                (elements @ replicate (nat nullCount) (Prim PNull))
          | Rec ObjectNullRecord \<Rightarrow>
              readAllElements_loop next' (fuel + k) count bt ai (i + 1) (elements @ [Prim PNull])
          | _ \<Rightarrow>
              readAllElements_loop next' (fuel + k) count bt ai (i + 1) (elements @ [val])))"
      by (intro refines_bind refines_readObjectValue assms)
        (auto split: ObjectValue.splits NrbfRecord.splits intro: Suc)
    then show ?thesis using True by (simp add: refines_def)
  qed
qed

lemma refines_arrays:
  assumes "refines next next'"
  shows "refines (decodeBinaryArray next fuel) (decodeBinaryArray next' (fuel + k))"
    and "refines (decodeArraySingleObject next fuel) (decodeArraySingleObject next' (fuel + k))"
    and "refines (decodeArraySingleString next fuel) (decodeArraySingleString next' (fuel + k))"
proof -
  have r: "refines (readAllElements next fuel count bt ai) (readAllElements next' (fuel + k) count bt ai)"
    for count bt ai
    by (rule refines_eta [OF readAllElements_def readAllElements_def])
      (rule refines_readAllElements_loop [OF assms])
  show "refines (decodeBinaryArray next fuel) (decodeBinaryArray next' (fuel + k))"
    by (rule refines_eta [OF decodeBinaryArray_def decodeBinaryArray_def])
      (intro refines_bind refines_refl r)
  show "refines (decodeArraySingleObject next fuel) (decodeArraySingleObject next' (fuel + k))"
    by (rule refines_eta [OF decodeArraySingleObject_def decodeArraySingleObject_def])
      (intro refines_bind refines_refl r)
  show "refines (decodeArraySingleString next fuel) (decodeArraySingleString next' (fuel + k))"
    by (rule refines_eta [OF decodeArraySingleString_def decodeArraySingleString_def])
      (intro refines_bind refines_refl r)
qed

lemma refines_decodeNext: "refines (decodeNext n) (decodeNext (n + k))"
proof (induction n)
  case 0
  show ?case by (simp add: refines_def)
next
  case (Suc n)
  note ih = Suc
  show ?case
    unfolding refines_def
  proof (intro allI impI)
    fix d0
    assume a: "decodeNext (Suc n) d0 \<noteq> OutOfFuel"
    show "decodeNext (Suc n + k) d0 = decodeNext (Suc n) d0"
      using a
      unfolding add_Suc decodeNext.simps
      by (intro refinesD [rotated]) (assumption, intro refines_bind refines_if refines_refl
          refines_classes [OF ih] refines_decodeClassWithId [OF ih] refines_arrays [OF ih])
  qed
qed

lemma refines_decode_loop:
  "refines (decode_loop n rounds count) (decode_loop (n + k) (rounds + j) count)"
proof (induction rounds arbitrary: count)
  case 0
  show ?case by (simp add: refines_def)
next
  case (Suc rounds)
  show ?case
    unfolding add_Suc
    by (rule refines_eta [OF decode_loop.simps(2) decode_loop.simps(2)])
      (intro refines_bind refines_if refines_refl refines_decodeNext Suc)
qed

lemma refines_decode_run: "refines (decode_run n) (decode_run (n + k))"
  by (rule refines_eta [OF decode_run_def decode_run_def])
    (intro refines_bind refines_if refines_refl refines_decode_loop)

lemma decode_fuel_mono:
  assumes "decode n buffer \<noteq> OutOfFuel"
  shows "decode (n + k) buffer = decode n buffer"
proof -
  from assms have "decode_run n (newNrbfDecoder buffer) \<noteq> OutOfFuel"
    by (auto simp: decode_def split: outcome.splits)
  from refinesD [OF refines_decode_run this]
  show ?thesis by (simp add: decode_def)
qed


subsection \<open>Decoding and encoding concrete streams\<close>

lemmas reader_eval = bind_def unit_def throw_def getBytes_def readByte_def readSByte_def
  readInt16_def readUInt16_def readInt32_def readUInt32_def readInt64_def readUInt64_def
  readBoolean_def readChar_def readVariableLengthInt_def readVariableLengthInt_loop.simps
  readLengthPrefixedString_def utf8_decode_def js_and_def js_or_def js_shl_def js_sar_def
  ToInt32_def ToInt16_def ToInt8_def char_of_def newBinaryReader_def getPosition_def Let_def

lemmas decoder_eval = reader_eval rd_def newNrbfDecoder_def getRecord_def recordMap_set_def
  heap_store_def metadataMap_set_def decodeSerializationHeader_def decodeBinaryLibrary_def
  readClassInfo_def readAdditionalTypeInfo_def readMemberTypeInfo_def readPrimitiveValue_def
  readObjectValue_def nth_opt_def decodeClassWithMembersAndTypes_def
  decodeSystemClassWithMembersAndTypes_def decodeSystemClassWithMembers_def
  decodeClassWithMembers_def decodeClassWithId_def decodeBinaryObjectString_def
  readAllElements_def decodeBinaryArray_def decodeArraySinglePrimitive_def
  decodeArraySingleObject_def decodeArraySingleString_def decodeMemberPrimitiveTyped_def
  decodeMemberReference_def decodeObjectNullMultiple_def decodeObjectNullMultiple256_def
  contextBytes_def decode_run_def decode_def enum_defs

lemma three: "(3::nat) = Suc (Suc (Suc 0))"
  by simp

lemma replicate3: "replicate 3 x = [x, x, x]"
  by (simp add: numeral_3_eq_3)

text \<open>
  C2, as stated. The input of the claim has the bytes 0, 0, 0, 1 for the root id, which read
  as a little-endian Int32 are 16777216; the string record has id 1, so the root is not
  found and \<open>decode\<close> throws. (The input listed has 29 bytes.)
\<close>

theorem C2_counterexample:
  "decode 3 [0x00, 0,0,0,1, 0xFF,0xFF,0xFF,0xFF, 1,0,0,0, 0,0,0,0, 0x06, 1,0,0,0, 0x05,
       0x68,0x65,0x6C,0x6C,0x6F, 0x0B] = Throw (RootNotFound 16777216)"
  unfolding three by (simp add: decoder_eval)

lemma dec_hello:
  "decode 3 [0x00, 1,0,0,0, 0xFF,0xFF,0xFF,0xFF, 1,0,0,0, 0,0,0,0, 0x06, 1,0,0,0, 0x05,
       0x68,0x65,0x6C,0x6C,0x6F, 0x0B] = Return (BinaryObjectStringRecord 1 ''hello'')"
  unfolding three by (simp add: decoder_eval)

text \<open>
  C2, amended. Decoding the 29-byte input with the root id bytes 1, 0, 0, 0 succeeds, with
  any fuel from 3 on, and yields a root \<open>BinaryObjectStringRecord\<close> with object id 1 and
  value \<open>hello\<close>; re-encoding that root produces exactly the input bytes.
\<close>

theorem C2_hello_roundtrip:
  "length [0x00, 1,0,0,0, 0xFF,0xFF,0xFF,0xFF, 1,0,0,0, 0,0,0,0, 0x06, 1,0,0,0, 0x05,
       0x68,0x65,0x6C,0x6C,0x6F, 0x0B :: byte] = 29
   \<and> decode (3 + k) [0x00, 1,0,0,0, 0xFF,0xFF,0xFF,0xFF, 1,0,0,0, 0,0,0,0, 0x06, 1,0,0,0, 0x05,
       0x68,0x65,0x6C,0x6C,0x6F, 0x0B] = Return (BinaryObjectStringRecord 1 ''hello'')
   \<and> encode (BinaryObjectStringRecord 1 ''hello'') None
     = Return [0x00, 1,0,0,0, 0xFF,0xFF,0xFF,0xFF, 1,0,0,0, 0,0,0,0, 0x06, 1,0,0,0, 0x05,
       0x68,0x65,0x6C,0x6C,0x6F, 0x0B]"
  using dec_hello enc_hello
    decode_fuel_mono [of 3 "[0x00, 1,0,0,0, 0xFF,0xFF,0xFF,0xFF, 1,0,0,0, 0,0,0,0, 0x06, 1,0,0,0,
       0x05, 0x68,0x65,0x6C,0x6C,0x6F, 0x0B]" k]
  by simp




text \<open>
  What the element loop does keep: when it returns, the elements are at least as many as
  the slots asked for, provided they were at least as many as the slots filled when it
  started. A primitive array has exactly as many elements as its length, when that is
  not negative.
\<close>

lemma readAllElements_loop_at_least:
  "readAllElements_loop next fuel count bt ai i elements d = Return (es, d') \<Longrightarrow>
     i \<le> int (length elements) \<Longrightarrow> count \<le> int (length es)"
proof (induction fuel arbitrary: i elements d)
  case 0
  then show ?case by (auto simp: unit_def split: if_splits)
next
  case (Suc fuel)
  show ?case
  proof (cases "i < count")
    case False
    with Suc.prems show ?thesis by (auto simp: unit_def)
  next
    case True
    with Suc.prems(1) obtain val d1 where
      v: "readObjectValue next (Some bt) (Some ai) d = Return (val, d1)"
      and k: "(case val of
            Rec (ObjectNullMultipleRecord nullCount) \<Rightarrow>
              readAllElements_loop next fuel count bt ai (i + nullCount)
                (elements @ replicate (nat nullCount) (Prim PNull))
          | Rec (ObjectNullMultiple256Record nullCount) \<Rightarrow>
              readAllElements_loop next fuel count bt ai (i + nullCount)
                (elements @ replicate (nat nullCount) (Prim PNull))
          | Rec ObjectNullRecord \<Rightarrow>
              readAllElements_loop next fuel count bt ai (i + 1) (elements @ [Prim PNull])
          | _ \<Rightarrow>
              readAllElements_loop next fuel count bt ai (i + 1) (elements @ [val])) d1
          = Return (es, d')"
      by (auto simp: bind_Return)
    from k Suc.prems(2) show ?thesis
      by (auto split: ObjectValue.splits NrbfRecord.splits intro!: Suc.IH)
  qed
qed

lemma repeat_length: "repeat n m d = Return (xs, d') \<Longrightarrow> length xs = n"
  by (induction n arbitrary: d xs) (auto simp: unit_def bind_Return)

text \<open>
  C4. The stream below holds an \<open>ArraySingleObject\<close> record of length 1 whose element
  stream is one \<open>ObjectNullMultiple256\<close> record of count 3: \<open>decode\<close> accepts it, with any
  fuel from 3 on, and the decoded array has length 1 and three element values.
\<close>

theorem C4_null_run_overrun:
  "decode (3 + k) [0x00, 1,0,0,0, 0xFF,0xFF,0xFF,0xFF, 1,0,0,0, 0,0,0,0,
       0x10, 1,0,0,0, 1,0,0,0, 0x0D, 3, 0x0B]
     = Return (ArraySingleObjectRecord 1 1 [Prim PNull, Prim PNull, Prim PNull])"
proof -
  have "decode 3 [0x00, 1,0,0,0, 0xFF,0xFF,0xFF,0xFF, 1,0,0,0, 0,0,0,0,
       0x10, 1,0,0,0, 1,0,0,0, 0x0D, 3, 0x0B]
     = Return (ArraySingleObjectRecord 1 1 [Prim PNull, Prim PNull, Prim PNull])"
    unfolding three by (simp add: decoder_eval replicate3)
  then show ?thesis
    using decode_fuel_mono [of 3 "[0x00, 1,0,0,0, 0xFF,0xFF,0xFF,0xFF, 1,0,0,0, 0,0,0,0,
       0x10, 1,0,0,0, 1,0,0,0, 0x0D, 3, 0x0B]" k]
    by simp
qed








subsection \<open>Dotted-path lookup\<close>

lemma loop_append:
  "getNestedValue_loop t dec cur (xs @ ys)
     = (case getNestedValue_loop t dec cur xs of
          None \<Rightarrow> None
        | Some c \<Rightarrow> getNestedValue_loop t dec c ys)"
  by (induction xs arbitrary: cur) (auto split: option.splits)

lemma step_dangling:
  "getRecord d idRef = None \<Longrightarrow>
     getNestedValue_step t (Some d) (Rec (MemberReferenceRecord idRef)) part = None"
  by (simp add: getNestedValue_step_def)

text \<open>
  C9, as stated. The member \<open>a\<close> of the root holds a reference to id 7, which the record
  table does not hold. The lookup of \<open>a\<close> ends on the reference and the lookup of \<open>a.b\<close>
  meets it at the segment \<open>b\<close>; both return \<open>undefined\<close>, and nothing is thrown.
\<close>

theorem C9_counterexample:
  "getNestedValue noIndex
     (ClassRecord \<lparr>ci_objectId = 1, ci_name = ''C'', ci_memberCount = 1, ci_memberNames = [''a'']\<rparr>
        None None SystemClassWithMembers [(''a'', Rec (MemberReferenceRecord 7))])
     ''a'' (Some (newNrbfDecoder [])) = None
   \<and> getNestedValue noIndex
     (ClassRecord \<lparr>ci_objectId = 1, ci_name = ''C'', ci_memberCount = 1, ci_memberNames = [''a'']\<rparr>
        None None SystemClassWithMembers [(''a'', Rec (MemberReferenceRecord 7))])
     ''a.b'' (Some (newNrbfDecoder [])) = None"
  by (simp add: getNestedValue_def getNestedValue_step_def getRecord_def newNrbfDecoder_def)

text \<open>
  C9, amended. When the lookup with a decoder meets, at a segment or after the last one, a
  reference whose id the record table does not hold, it returns \<open>undefined\<close>.
\<close>

theorem C9_dangling_reference_undefined:
  assumes "getRecord d idRef = None"
  shows "(split_dot path = ps @ part # rest
            \<and> getNestedValue_loop toNumber (Some d) (Rec root) ps
                = Some (Rec (MemberReferenceRecord idRef))
          \<longrightarrow> getNestedValue toNumber root path (Some d) = None)
       \<and> (getNestedValue_loop toNumber (Some d) (Rec root) (split_dot path)
                = Some (Rec (MemberReferenceRecord idRef))
          \<longrightarrow> getNestedValue toNumber root path (Some d) = None)"
  using assms
  by (auto simp: getNestedValue_def loop_append step_dangling)

theorem C9_dangling_reference_undefined_witness:
  "getRecord (newNrbfDecoder []) 7 = None
   \<and> getNestedValue noIndex
     (ClassRecord \<lparr>ci_objectId = 1, ci_name = ''C'', ci_memberCount = 1, ci_memberNames = [''a'']\<rparr>
        None None SystemClassWithMembers [(''a'', Rec (MemberReferenceRecord 7))])
     ''a.b'' (Some (newNrbfDecoder [])) = None
   \<and> getNestedValue noIndex
     (ClassRecord \<lparr>ci_objectId = 1, ci_name = ''C'', ci_memberCount = 1, ci_memberNames = [''a'']\<rparr>
        None None SystemClassWithMembers [(''a'', Rec (MemberReferenceRecord 7))])
     ''a'' (Some (newNrbfDecoder [])) = None"
proof -
  have g: "getRecord (newNrbfDecoder []) 7 = None"
    by (simp add: getRecord_def newNrbfDecoder_def)
  have s1: "split_dot ''a.b'' = [''a''] @ ''b'' # []" by simp
  have s2: "split_dot ''a'' = [''a'']" by simp
  have l: "getNestedValue_loop noIndex (Some (newNrbfDecoder []))
      (Rec (ClassRecord \<lparr>ci_objectId = 1, ci_name = ''C'', ci_memberCount = 1,
         ci_memberNames = [''a'']\<rparr> None None SystemClassWithMembers
         [(''a'', Rec (MemberReferenceRecord 7))])) [''a'']
      = Some (Rec (MemberReferenceRecord 7))"
    by (simp add: getNestedValue_step_def)
  from C9_dangling_reference_undefined [OF g, of "''a.b''" "[''a'']" "''b''" "[]" noIndex
      "ClassRecord \<lparr>ci_objectId = 1, ci_name = ''C'', ci_memberCount = 1,
         ci_memberNames = [''a'']\<rparr> None None SystemClassWithMembers
         [(''a'', Rec (MemberReferenceRecord 7))]"]
    C9_dangling_reference_undefined [OF g, of "''a''" "[]" "''x''" "[]" noIndex
      "ClassRecord \<lparr>ci_objectId = 1, ci_name = ''C'', ci_memberCount = 1,
         ci_memberNames = [''a'']\<rparr> None None SystemClassWithMembers
         [(''a'', Rec (MemberReferenceRecord 7))]"]
    g s1 s2 l
  show ?thesis by simp
qed


end
